theory Spec2Isabelle
  imports Main
begin

section \<open>Strings and cell values\<close>

text \<open>
  The exporter is a Python program.  A Python string is a sequence of Unicode code points,
  and is modelled as a list of them; \<open>len\<close>, slicing and \<open>rjust\<close> count code points.
  \<open>u\<close> writes an ASCII literal as such a list.
\<close>

type_synonym ustring = "nat list"

abbreviation ord :: "char \<Rightarrow> nat" where
  "ord \<equiv> of_char"

definition u :: "string \<Rightarrow> ustring" where
  "u s = map ord s"

text \<open>
  The character tables are those of CPython 3.11 (Unicode 14.0.0).  \<open>space_table\<close> holds
  the code points that \<open>str.isspace()\<close> accepts and \<open>str.strip()\<close> removes.
\<close>

definition space_table :: "nat list" where
  "space_table =
     [0x9, 0xA, 0xB, 0xC, 0xD, 0x1C, 0x1D, 0x1E, 0x1F, 0x20, 0x85, 0xA0, 0x1680, 0x2000,
      0x2001, 0x2002, 0x2003, 0x2004, 0x2005, 0x2006, 0x2007, 0x2008, 0x2009, 0x200A,
      0x2028, 0x2029, 0x202F, 0x205F, 0x3000]"

definition isspace :: "nat \<Rightarrow> bool" where
  "isspace c \<longleftrightarrow> c \<in> set space_table"

text \<open>
  \<open>digit_table\<close> holds the ranges of the code points that \<open>str.isdigit()\<close> accepts: the
  decimal digits of every script, and the superscript, subscript and circled digits.
\<close>

definition digit_table :: "(nat \<times> nat) list" where
  "digit_table =
     [(0x30, 0x39), (0xB2, 0xB3), (0xB9, 0xB9), (0x660, 0x669), (0x6F0, 0x6F9),
      (0x7C0, 0x7C9), (0x966, 0x96F), (0x9E6, 0x9EF), (0xA66, 0xA6F), (0xAE6, 0xAEF),
      (0xB66, 0xB6F), (0xBE6, 0xBEF), (0xC66, 0xC6F), (0xCE6, 0xCEF), (0xD66, 0xD6F),
      (0xDE6, 0xDEF), (0xE50, 0xE59), (0xED0, 0xED9), (0xF20, 0xF29), (0x1040, 0x1049),
      (0x1090, 0x1099), (0x1369, 0x1371), (0x17E0, 0x17E9), (0x1810, 0x1819),
      (0x1946, 0x194F), (0x19D0, 0x19DA), (0x1A80, 0x1A89), (0x1A90, 0x1A99),
      (0x1B50, 0x1B59), (0x1BB0, 0x1BB9), (0x1C40, 0x1C49), (0x1C50, 0x1C59),
      (0x2070, 0x2070), (0x2074, 0x2079), (0x2080, 0x2089), (0x2460, 0x2468),
      (0x2474, 0x247C), (0x2488, 0x2490), (0x24EA, 0x24EA), (0x24F5, 0x24FD),
      (0x24FF, 0x24FF), (0x2776, 0x277E), (0x2780, 0x2788), (0x278A, 0x2792),
      (0xA620, 0xA629), (0xA8D0, 0xA8D9), (0xA900, 0xA909), (0xA9D0, 0xA9D9),
      (0xA9F0, 0xA9F9), (0xAA50, 0xAA59), (0xABF0, 0xABF9), (0xFF10, 0xFF19),
      (0x104A0, 0x104A9), (0x10A40, 0x10A43), (0x10D30, 0x10D39), (0x10E60, 0x10E68),
      (0x11052, 0x1105A), (0x11066, 0x1106F), (0x110F0, 0x110F9), (0x11136, 0x1113F),
      (0x111D0, 0x111D9), (0x112F0, 0x112F9), (0x11450, 0x11459), (0x114D0, 0x114D9),
      (0x11650, 0x11659), (0x116C0, 0x116C9), (0x11730, 0x11739), (0x118E0, 0x118E9),
      (0x11950, 0x11959), (0x11C50, 0x11C59), (0x11D50, 0x11D59), (0x11DA0, 0x11DA9),
      (0x16A60, 0x16A69), (0x16AC0, 0x16AC9), (0x16B50, 0x16B59), (0x1D7CE, 0x1D7FF),
      (0x1E140, 0x1E149), (0x1E2F0, 0x1E2F9), (0x1E950, 0x1E959), (0x1F100, 0x1F10A),
      (0x1FBF0, 0x1FBF9)]"

definition isdigit :: "nat \<Rightarrow> bool" where
  "isdigit c \<longleftrightarrow> list_ex (\<lambda>(lo, hi). lo \<le> c \<and> c \<le> hi) digit_table"

definition lstrip :: "ustring \<Rightarrow> ustring" where
  "lstrip s = dropWhile isspace s"

definition rstrip :: "ustring \<Rightarrow> ustring" where
  "rstrip s = rev (dropWhile isspace (rev s))"

definition strip :: "ustring \<Rightarrow> ustring" where
  "strip s = rstrip (lstrip s)"

text \<open>
  \<open>str.upper()\<close> maps every code point on its own, some to more than one code point.
  \<open>upper_table\<close> holds the code points above ASCII that \<open>str.upper()\<close> changes, with
  what they become; within ASCII the letters \<open>a\<close> to \<open>z\<close> change.
\<close>

definition upper_table :: "(nat \<times> nat list) list" where
  "upper_table =
     [(0xB5, [0x39C]), (0xDF, [0x53, 0x53]), (0xE0, [0xC0]), (0xE1, [0xC1]),
      (0xE2, [0xC2]), (0xE3, [0xC3]), (0xE4, [0xC4]), (0xE5, [0xC5]), (0xE6, [0xC6]),
      (0xE7, [0xC7]), (0xE8, [0xC8]), (0xE9, [0xC9]), (0xEA, [0xCA]), (0xEB, [0xCB]),
      (0xEC, [0xCC]), (0xED, [0xCD]), (0xEE, [0xCE]), (0xEF, [0xCF]), (0xF0, [0xD0]),
      (0xF1, [0xD1]), (0xF2, [0xD2]), (0xF3, [0xD3]), (0xF4, [0xD4]), (0xF5, [0xD5]),
      (0xF6, [0xD6]), (0xF8, [0xD8]), (0xF9, [0xD9]), (0xFA, [0xDA]), (0xFB, [0xDB]),
      (0xFC, [0xDC]), (0xFD, [0xDD]), (0xFE, [0xDE]), (0xFF, [0x178]), (0x101, [0x100]),
      (0x103, [0x102]), (0x105, [0x104]), (0x107, [0x106]), (0x109, [0x108]),
      (0x10B, [0x10A]), (0x10D, [0x10C]), (0x10F, [0x10E]), (0x111, [0x110]),
      (0x113, [0x112]), (0x115, [0x114]), (0x117, [0x116]), (0x119, [0x118]),
      (0x11B, [0x11A]), (0x11D, [0x11C]), (0x11F, [0x11E]), (0x121, [0x120]),
      (0x123, [0x122]), (0x125, [0x124]), (0x127, [0x126]), (0x129, [0x128]),
      (0x12B, [0x12A]), (0x12D, [0x12C]), (0x12F, [0x12E]), (0x131, [0x49]),
      (0x133, [0x132]), (0x135, [0x134]), (0x137, [0x136]), (0x13A, [0x139]),
      (0x13C, [0x13B]), (0x13E, [0x13D]), (0x140, [0x13F]), (0x142, [0x141]),
      (0x144, [0x143]), (0x146, [0x145]), (0x148, [0x147]), (0x149, [0x2BC, 0x4E]),
      (0x14B, [0x14A]), (0x14D, [0x14C]), (0x14F, [0x14E]), (0x151, [0x150]),
      (0x153, [0x152]), (0x155, [0x154]), (0x157, [0x156]), (0x159, [0x158]),
      (0x15B, [0x15A]), (0x15D, [0x15C]), (0x15F, [0x15E]), (0x161, [0x160]),
      (0x163, [0x162]), (0x165, [0x164]), (0x167, [0x166]), (0x169, [0x168]),
      (0x16B, [0x16A]), (0x16D, [0x16C]), (0x16F, [0x16E]), (0x171, [0x170]),
      (0x173, [0x172]), (0x175, [0x174]), (0x177, [0x176]), (0x17A, [0x179]),
      (0x17C, [0x17B]), (0x17E, [0x17D]), (0x17F, [0x53]), (0x180, [0x243]),
      (0x183, [0x182]), (0x185, [0x184]), (0x188, [0x187]), (0x18C, [0x18B]),
      (0x192, [0x191]), (0x195, [0x1F6]), (0x199, [0x198]), (0x19A, [0x23D]),
      (0x19E, [0x220]), (0x1A1, [0x1A0]), (0x1A3, [0x1A2]), (0x1A5, [0x1A4]),
      (0x1A8, [0x1A7]), (0x1AD, [0x1AC]), (0x1B0, [0x1AF]), (0x1B4, [0x1B3]),
      (0x1B6, [0x1B5]), (0x1B9, [0x1B8]), (0x1BD, [0x1BC]), (0x1BF, [0x1F7]),
      (0x1C5, [0x1C4]), (0x1C6, [0x1C4]), (0x1C8, [0x1C7]), (0x1C9, [0x1C7]),
      (0x1CB, [0x1CA]), (0x1CC, [0x1CA]), (0x1CE, [0x1CD]), (0x1D0, [0x1CF]),
      (0x1D2, [0x1D1]), (0x1D4, [0x1D3]), (0x1D6, [0x1D5]), (0x1D8, [0x1D7]),
      (0x1DA, [0x1D9]), (0x1DC, [0x1DB]), (0x1DD, [0x18E]), (0x1DF, [0x1DE]),
      (0x1E1, [0x1E0]), (0x1E3, [0x1E2]), (0x1E5, [0x1E4]), (0x1E7, [0x1E6]),
      (0x1E9, [0x1E8]), (0x1EB, [0x1EA]), (0x1ED, [0x1EC]), (0x1EF, [0x1EE]),
      (0x1F0, [0x4A, 0x30C]), (0x1F2, [0x1F1]), (0x1F3, [0x1F1]), (0x1F5, [0x1F4]),
      (0x1F9, [0x1F8]), (0x1FB, [0x1FA]), (0x1FD, [0x1FC]), (0x1FF, [0x1FE]),
      (0x201, [0x200]), (0x203, [0x202]), (0x205, [0x204]), (0x207, [0x206]),
      (0x209, [0x208]), (0x20B, [0x20A]), (0x20D, [0x20C]), (0x20F, [0x20E]),
      (0x211, [0x210]), (0x213, [0x212]), (0x215, [0x214]), (0x217, [0x216]),
      (0x219, [0x218]), (0x21B, [0x21A]), (0x21D, [0x21C]), (0x21F, [0x21E]),
      (0x223, [0x222]), (0x225, [0x224]), (0x227, [0x226]), (0x229, [0x228]),
      (0x22B, [0x22A]), (0x22D, [0x22C]), (0x22F, [0x22E]), (0x231, [0x230]),
      (0x233, [0x232]), (0x23C, [0x23B]), (0x23F, [0x2C7E]), (0x240, [0x2C7F]),
      (0x242, [0x241]), (0x247, [0x246]), (0x249, [0x248]), (0x24B, [0x24A]),
      (0x24D, [0x24C]), (0x24F, [0x24E]), (0x250, [0x2C6F]), (0x251, [0x2C6D]),
      (0x252, [0x2C70]), (0x253, [0x181]), (0x254, [0x186]), (0x256, [0x189]),
      (0x257, [0x18A]), (0x259, [0x18F]), (0x25B, [0x190]), (0x25C, [0xA7AB]),
      (0x260, [0x193]), (0x261, [0xA7AC]), (0x263, [0x194]), (0x265, [0xA78D]),
      (0x266, [0xA7AA]), (0x268, [0x197]), (0x269, [0x196]), (0x26A, [0xA7AE]),
      (0x26B, [0x2C62]), (0x26C, [0xA7AD]), (0x26F, [0x19C]), (0x271, [0x2C6E]),
      (0x272, [0x19D]), (0x275, [0x19F]), (0x27D, [0x2C64]), (0x280, [0x1A6]),
      (0x282, [0xA7C5]), (0x283, [0x1A9]), (0x287, [0xA7B1]), (0x288, [0x1AE]),
      (0x289, [0x244]), (0x28A, [0x1B1]), (0x28B, [0x1B2]), (0x28C, [0x245]),
      (0x292, [0x1B7]), (0x29D, [0xA7B2]), (0x29E, [0xA7B0]), (0x345, [0x399]),
      (0x371, [0x370]), (0x373, [0x372]), (0x377, [0x376]), (0x37B, [0x3FD]),
      (0x37C, [0x3FE]), (0x37D, [0x3FF]), (0x390, [0x399, 0x308, 0x301]), (0x3AC, [0x386]),
      (0x3AD, [0x388]), (0x3AE, [0x389]), (0x3AF, [0x38A]), (0x3B0, [0x3A5, 0x308, 0x301]),
      (0x3B1, [0x391]), (0x3B2, [0x392]), (0x3B3, [0x393]), (0x3B4, [0x394]),
      (0x3B5, [0x395]), (0x3B6, [0x396]), (0x3B7, [0x397]), (0x3B8, [0x398]),
      (0x3B9, [0x399]), (0x3BA, [0x39A]), (0x3BB, [0x39B]), (0x3BC, [0x39C]),
      (0x3BD, [0x39D]), (0x3BE, [0x39E]), (0x3BF, [0x39F]), (0x3C0, [0x3A0]),
      (0x3C1, [0x3A1]), (0x3C2, [0x3A3]), (0x3C3, [0x3A3]), (0x3C4, [0x3A4]),
      (0x3C5, [0x3A5]), (0x3C6, [0x3A6]), (0x3C7, [0x3A7]), (0x3C8, [0x3A8]),
      (0x3C9, [0x3A9]), (0x3CA, [0x3AA]), (0x3CB, [0x3AB]), (0x3CC, [0x38C]),
      (0x3CD, [0x38E]), (0x3CE, [0x38F]), (0x3D0, [0x392]), (0x3D1, [0x398]),
      (0x3D5, [0x3A6]), (0x3D6, [0x3A0]), (0x3D7, [0x3CF]), (0x3D9, [0x3D8]),
      (0x3DB, [0x3DA]), (0x3DD, [0x3DC]), (0x3DF, [0x3DE]), (0x3E1, [0x3E0]),
      (0x3E3, [0x3E2]), (0x3E5, [0x3E4]), (0x3E7, [0x3E6]), (0x3E9, [0x3E8]),
      (0x3EB, [0x3EA]), (0x3ED, [0x3EC]), (0x3EF, [0x3EE]), (0x3F0, [0x39A]),
      (0x3F1, [0x3A1]), (0x3F2, [0x3F9]), (0x3F3, [0x37F]), (0x3F5, [0x395]),
      (0x3F8, [0x3F7]), (0x3FB, [0x3FA]), (0x430, [0x410]), (0x431, [0x411]),
      (0x432, [0x412]), (0x433, [0x413]), (0x434, [0x414]), (0x435, [0x415]),
      (0x436, [0x416]), (0x437, [0x417]), (0x438, [0x418]), (0x439, [0x419]),
      (0x43A, [0x41A]), (0x43B, [0x41B]), (0x43C, [0x41C]), (0x43D, [0x41D]),
      (0x43E, [0x41E]), (0x43F, [0x41F]), (0x440, [0x420]), (0x441, [0x421]),
      (0x442, [0x422]), (0x443, [0x423]), (0x444, [0x424]), (0x445, [0x425]),
      (0x446, [0x426]), (0x447, [0x427]), (0x448, [0x428]), (0x449, [0x429]),
      (0x44A, [0x42A]), (0x44B, [0x42B]), (0x44C, [0x42C]), (0x44D, [0x42D]),
      (0x44E, [0x42E]), (0x44F, [0x42F]), (0x450, [0x400]), (0x451, [0x401]),
      (0x452, [0x402]), (0x453, [0x403]), (0x454, [0x404]), (0x455, [0x405]),
      (0x456, [0x406]), (0x457, [0x407]), (0x458, [0x408]), (0x459, [0x409]),
      (0x45A, [0x40A]), (0x45B, [0x40B]), (0x45C, [0x40C]), (0x45D, [0x40D]),
      (0x45E, [0x40E]), (0x45F, [0x40F]), (0x461, [0x460]), (0x463, [0x462]),
      (0x465, [0x464]), (0x467, [0x466]), (0x469, [0x468]), (0x46B, [0x46A]),
      (0x46D, [0x46C]), (0x46F, [0x46E]), (0x471, [0x470]), (0x473, [0x472]),
      (0x475, [0x474]), (0x477, [0x476]), (0x479, [0x478]), (0x47B, [0x47A]),
      (0x47D, [0x47C]), (0x47F, [0x47E]), (0x481, [0x480]), (0x48B, [0x48A]),
      (0x48D, [0x48C]), (0x48F, [0x48E]), (0x491, [0x490]), (0x493, [0x492]),
      (0x495, [0x494]), (0x497, [0x496]), (0x499, [0x498]), (0x49B, [0x49A]),
      (0x49D, [0x49C]), (0x49F, [0x49E]), (0x4A1, [0x4A0]), (0x4A3, [0x4A2]),
      (0x4A5, [0x4A4]), (0x4A7, [0x4A6]), (0x4A9, [0x4A8]), (0x4AB, [0x4AA]),
      (0x4AD, [0x4AC]), (0x4AF, [0x4AE]), (0x4B1, [0x4B0]), (0x4B3, [0x4B2]),
      (0x4B5, [0x4B4]), (0x4B7, [0x4B6]), (0x4B9, [0x4B8]), (0x4BB, [0x4BA]),
      (0x4BD, [0x4BC]), (0x4BF, [0x4BE]), (0x4C2, [0x4C1]), (0x4C4, [0x4C3]),
      (0x4C6, [0x4C5]), (0x4C8, [0x4C7]), (0x4CA, [0x4C9]), (0x4CC, [0x4CB]),
      (0x4CE, [0x4CD]), (0x4CF, [0x4C0]), (0x4D1, [0x4D0]), (0x4D3, [0x4D2]),
      (0x4D5, [0x4D4]), (0x4D7, [0x4D6]), (0x4D9, [0x4D8]), (0x4DB, [0x4DA]),
      (0x4DD, [0x4DC]), (0x4DF, [0x4DE]), (0x4E1, [0x4E0]), (0x4E3, [0x4E2]),
      (0x4E5, [0x4E4]), (0x4E7, [0x4E6]), (0x4E9, [0x4E8]), (0x4EB, [0x4EA]),
      (0x4ED, [0x4EC]), (0x4EF, [0x4EE]), (0x4F1, [0x4F0]), (0x4F3, [0x4F2]),
      (0x4F5, [0x4F4]), (0x4F7, [0x4F6]), (0x4F9, [0x4F8]), (0x4FB, [0x4FA]),
      (0x4FD, [0x4FC]), (0x4FF, [0x4FE]), (0x501, [0x500]), (0x503, [0x502]),
      (0x505, [0x504]), (0x507, [0x506]), (0x509, [0x508]), (0x50B, [0x50A]),
      (0x50D, [0x50C]), (0x50F, [0x50E]), (0x511, [0x510]), (0x513, [0x512]),
      (0x515, [0x514]), (0x517, [0x516]), (0x519, [0x518]), (0x51B, [0x51A]),
      (0x51D, [0x51C]), (0x51F, [0x51E]), (0x521, [0x520]), (0x523, [0x522]),
      (0x525, [0x524]), (0x527, [0x526]), (0x529, [0x528]), (0x52B, [0x52A]),
      (0x52D, [0x52C]), (0x52F, [0x52E]), (0x561, [0x531]), (0x562, [0x532]),
      (0x563, [0x533]), (0x564, [0x534]), (0x565, [0x535]), (0x566, [0x536]),
      (0x567, [0x537]), (0x568, [0x538]), (0x569, [0x539]), (0x56A, [0x53A]),
      (0x56B, [0x53B]), (0x56C, [0x53C]), (0x56D, [0x53D]), (0x56E, [0x53E]),
      (0x56F, [0x53F]), (0x570, [0x540]), (0x571, [0x541]), (0x572, [0x542]),
      (0x573, [0x543]), (0x574, [0x544]), (0x575, [0x545]), (0x576, [0x546]),
      (0x577, [0x547]), (0x578, [0x548]), (0x579, [0x549]), (0x57A, [0x54A]),
      (0x57B, [0x54B]), (0x57C, [0x54C]), (0x57D, [0x54D]), (0x57E, [0x54E]),
      (0x57F, [0x54F]), (0x580, [0x550]), (0x581, [0x551]), (0x582, [0x552]),
      (0x583, [0x553]), (0x584, [0x554]), (0x585, [0x555]), (0x586, [0x556]),
      (0x587, [0x535, 0x552]), (0x10D0, [0x1C90]), (0x10D1, [0x1C91]), (0x10D2, [0x1C92]),
      (0x10D3, [0x1C93]), (0x10D4, [0x1C94]), (0x10D5, [0x1C95]), (0x10D6, [0x1C96]),
      (0x10D7, [0x1C97]), (0x10D8, [0x1C98]), (0x10D9, [0x1C99]), (0x10DA, [0x1C9A]),
      (0x10DB, [0x1C9B]), (0x10DC, [0x1C9C]), (0x10DD, [0x1C9D]), (0x10DE, [0x1C9E]),
      (0x10DF, [0x1C9F]), (0x10E0, [0x1CA0]), (0x10E1, [0x1CA1]), (0x10E2, [0x1CA2]),
      (0x10E3, [0x1CA3]), (0x10E4, [0x1CA4]), (0x10E5, [0x1CA5]), (0x10E6, [0x1CA6]),
      (0x10E7, [0x1CA7]), (0x10E8, [0x1CA8]), (0x10E9, [0x1CA9]), (0x10EA, [0x1CAA]),
      (0x10EB, [0x1CAB]), (0x10EC, [0x1CAC]), (0x10ED, [0x1CAD]), (0x10EE, [0x1CAE]),
      (0x10EF, [0x1CAF]), (0x10F0, [0x1CB0]), (0x10F1, [0x1CB1]), (0x10F2, [0x1CB2]),
      (0x10F3, [0x1CB3]), (0x10F4, [0x1CB4]), (0x10F5, [0x1CB5]), (0x10F6, [0x1CB6]),
      (0x10F7, [0x1CB7]), (0x10F8, [0x1CB8]), (0x10F9, [0x1CB9]), (0x10FA, [0x1CBA]),
      (0x10FD, [0x1CBD]), (0x10FE, [0x1CBE]), (0x10FF, [0x1CBF]), (0x13F8, [0x13F0]),
      (0x13F9, [0x13F1]), (0x13FA, [0x13F2]), (0x13FB, [0x13F3]), (0x13FC, [0x13F4]),
      (0x13FD, [0x13F5]), (0x1C80, [0x412]), (0x1C81, [0x414]), (0x1C82, [0x41E]),
      (0x1C83, [0x421]), (0x1C84, [0x422]), (0x1C85, [0x422]), (0x1C86, [0x42A]),
      (0x1C87, [0x462]), (0x1C88, [0xA64A]), (0x1D79, [0xA77D]), (0x1D7D, [0x2C63]),
      (0x1D8E, [0xA7C6]), (0x1E01, [0x1E00]), (0x1E03, [0x1E02]), (0x1E05, [0x1E04]),
      (0x1E07, [0x1E06]), (0x1E09, [0x1E08]), (0x1E0B, [0x1E0A]), (0x1E0D, [0x1E0C]),
      (0x1E0F, [0x1E0E]), (0x1E11, [0x1E10]), (0x1E13, [0x1E12]), (0x1E15, [0x1E14]),
      (0x1E17, [0x1E16]), (0x1E19, [0x1E18]), (0x1E1B, [0x1E1A]), (0x1E1D, [0x1E1C]),
      (0x1E1F, [0x1E1E]), (0x1E21, [0x1E20]), (0x1E23, [0x1E22]), (0x1E25, [0x1E24]),
      (0x1E27, [0x1E26]), (0x1E29, [0x1E28]), (0x1E2B, [0x1E2A]), (0x1E2D, [0x1E2C]),
      (0x1E2F, [0x1E2E]), (0x1E31, [0x1E30]), (0x1E33, [0x1E32]), (0x1E35, [0x1E34]),
      (0x1E37, [0x1E36]), (0x1E39, [0x1E38]), (0x1E3B, [0x1E3A]), (0x1E3D, [0x1E3C]),
      (0x1E3F, [0x1E3E]), (0x1E41, [0x1E40]), (0x1E43, [0x1E42]), (0x1E45, [0x1E44]),
      (0x1E47, [0x1E46]), (0x1E49, [0x1E48]), (0x1E4B, [0x1E4A]), (0x1E4D, [0x1E4C]),
      (0x1E4F, [0x1E4E]), (0x1E51, [0x1E50]), (0x1E53, [0x1E52]), (0x1E55, [0x1E54]),
      (0x1E57, [0x1E56]), (0x1E59, [0x1E58]), (0x1E5B, [0x1E5A]), (0x1E5D, [0x1E5C]),
      (0x1E5F, [0x1E5E]), (0x1E61, [0x1E60]), (0x1E63, [0x1E62]), (0x1E65, [0x1E64]),
      (0x1E67, [0x1E66]), (0x1E69, [0x1E68]), (0x1E6B, [0x1E6A]), (0x1E6D, [0x1E6C]),
      (0x1E6F, [0x1E6E]), (0x1E71, [0x1E70]), (0x1E73, [0x1E72]), (0x1E75, [0x1E74]),
      (0x1E77, [0x1E76]), (0x1E79, [0x1E78]), (0x1E7B, [0x1E7A]), (0x1E7D, [0x1E7C]),
      (0x1E7F, [0x1E7E]), (0x1E81, [0x1E80]), (0x1E83, [0x1E82]), (0x1E85, [0x1E84]),
      (0x1E87, [0x1E86]), (0x1E89, [0x1E88]), (0x1E8B, [0x1E8A]), (0x1E8D, [0x1E8C]),
      (0x1E8F, [0x1E8E]), (0x1E91, [0x1E90]), (0x1E93, [0x1E92]), (0x1E95, [0x1E94]),
      (0x1E96, [0x48, 0x331]), (0x1E97, [0x54, 0x308]), (0x1E98, [0x57, 0x30A]),
      (0x1E99, [0x59, 0x30A]), (0x1E9A, [0x41, 0x2BE]), (0x1E9B, [0x1E60]),
      (0x1EA1, [0x1EA0]), (0x1EA3, [0x1EA2]), (0x1EA5, [0x1EA4]), (0x1EA7, [0x1EA6]),
      (0x1EA9, [0x1EA8]), (0x1EAB, [0x1EAA]), (0x1EAD, [0x1EAC]), (0x1EAF, [0x1EAE]),
      (0x1EB1, [0x1EB0]), (0x1EB3, [0x1EB2]), (0x1EB5, [0x1EB4]), (0x1EB7, [0x1EB6]),
      (0x1EB9, [0x1EB8]), (0x1EBB, [0x1EBA]), (0x1EBD, [0x1EBC]), (0x1EBF, [0x1EBE]),
      (0x1EC1, [0x1EC0]), (0x1EC3, [0x1EC2]), (0x1EC5, [0x1EC4]), (0x1EC7, [0x1EC6]),
      (0x1EC9, [0x1EC8]), (0x1ECB, [0x1ECA]), (0x1ECD, [0x1ECC]), (0x1ECF, [0x1ECE]),
      (0x1ED1, [0x1ED0]), (0x1ED3, [0x1ED2]), (0x1ED5, [0x1ED4]), (0x1ED7, [0x1ED6]),
      (0x1ED9, [0x1ED8]), (0x1EDB, [0x1EDA]), (0x1EDD, [0x1EDC]), (0x1EDF, [0x1EDE]),
      (0x1EE1, [0x1EE0]), (0x1EE3, [0x1EE2]), (0x1EE5, [0x1EE4]), (0x1EE7, [0x1EE6]),
      (0x1EE9, [0x1EE8]), (0x1EEB, [0x1EEA]), (0x1EED, [0x1EEC]), (0x1EEF, [0x1EEE]),
      (0x1EF1, [0x1EF0]), (0x1EF3, [0x1EF2]), (0x1EF5, [0x1EF4]), (0x1EF7, [0x1EF6]),
      (0x1EF9, [0x1EF8]), (0x1EFB, [0x1EFA]), (0x1EFD, [0x1EFC]), (0x1EFF, [0x1EFE]),
      (0x1F00, [0x1F08]), (0x1F01, [0x1F09]), (0x1F02, [0x1F0A]), (0x1F03, [0x1F0B]),
      (0x1F04, [0x1F0C]), (0x1F05, [0x1F0D]), (0x1F06, [0x1F0E]), (0x1F07, [0x1F0F]),
      (0x1F10, [0x1F18]), (0x1F11, [0x1F19]), (0x1F12, [0x1F1A]), (0x1F13, [0x1F1B]),
      (0x1F14, [0x1F1C]), (0x1F15, [0x1F1D]), (0x1F20, [0x1F28]), (0x1F21, [0x1F29]),
      (0x1F22, [0x1F2A]), (0x1F23, [0x1F2B]), (0x1F24, [0x1F2C]), (0x1F25, [0x1F2D]),
      (0x1F26, [0x1F2E]), (0x1F27, [0x1F2F]), (0x1F30, [0x1F38]), (0x1F31, [0x1F39]),
      (0x1F32, [0x1F3A]), (0x1F33, [0x1F3B]), (0x1F34, [0x1F3C]), (0x1F35, [0x1F3D]),
      (0x1F36, [0x1F3E]), (0x1F37, [0x1F3F]), (0x1F40, [0x1F48]), (0x1F41, [0x1F49]),
      (0x1F42, [0x1F4A]), (0x1F43, [0x1F4B]), (0x1F44, [0x1F4C]), (0x1F45, [0x1F4D]),
      (0x1F50, [0x3A5, 0x313]), (0x1F51, [0x1F59]), (0x1F52, [0x3A5, 0x313, 0x300]),
      (0x1F53, [0x1F5B]), (0x1F54, [0x3A5, 0x313, 0x301]), (0x1F55, [0x1F5D]),
      (0x1F56, [0x3A5, 0x313, 0x342]), (0x1F57, [0x1F5F]), (0x1F60, [0x1F68]),
      (0x1F61, [0x1F69]), (0x1F62, [0x1F6A]), (0x1F63, [0x1F6B]), (0x1F64, [0x1F6C]),
      (0x1F65, [0x1F6D]), (0x1F66, [0x1F6E]), (0x1F67, [0x1F6F]), (0x1F70, [0x1FBA]),
      (0x1F71, [0x1FBB]), (0x1F72, [0x1FC8]), (0x1F73, [0x1FC9]), (0x1F74, [0x1FCA]),
      (0x1F75, [0x1FCB]), (0x1F76, [0x1FDA]), (0x1F77, [0x1FDB]), (0x1F78, [0x1FF8]),
      (0x1F79, [0x1FF9]), (0x1F7A, [0x1FEA]), (0x1F7B, [0x1FEB]), (0x1F7C, [0x1FFA]),
      (0x1F7D, [0x1FFB]), (0x1F80, [0x1F08, 0x399]), (0x1F81, [0x1F09, 0x399]),
      (0x1F82, [0x1F0A, 0x399]), (0x1F83, [0x1F0B, 0x399]), (0x1F84, [0x1F0C, 0x399]),
      (0x1F85, [0x1F0D, 0x399]), (0x1F86, [0x1F0E, 0x399]), (0x1F87, [0x1F0F, 0x399]),
      (0x1F88, [0x1F08, 0x399]), (0x1F89, [0x1F09, 0x399]), (0x1F8A, [0x1F0A, 0x399]),
      (0x1F8B, [0x1F0B, 0x399]), (0x1F8C, [0x1F0C, 0x399]), (0x1F8D, [0x1F0D, 0x399]),
      (0x1F8E, [0x1F0E, 0x399]), (0x1F8F, [0x1F0F, 0x399]), (0x1F90, [0x1F28, 0x399]),
      (0x1F91, [0x1F29, 0x399]), (0x1F92, [0x1F2A, 0x399]), (0x1F93, [0x1F2B, 0x399]),
      (0x1F94, [0x1F2C, 0x399]), (0x1F95, [0x1F2D, 0x399]), (0x1F96, [0x1F2E, 0x399]),
      (0x1F97, [0x1F2F, 0x399]), (0x1F98, [0x1F28, 0x399]), (0x1F99, [0x1F29, 0x399]),
      (0x1F9A, [0x1F2A, 0x399]), (0x1F9B, [0x1F2B, 0x399]), (0x1F9C, [0x1F2C, 0x399]),
      (0x1F9D, [0x1F2D, 0x399]), (0x1F9E, [0x1F2E, 0x399]), (0x1F9F, [0x1F2F, 0x399]),
      (0x1FA0, [0x1F68, 0x399]), (0x1FA1, [0x1F69, 0x399]), (0x1FA2, [0x1F6A, 0x399]),
      (0x1FA3, [0x1F6B, 0x399]), (0x1FA4, [0x1F6C, 0x399]), (0x1FA5, [0x1F6D, 0x399]),
      (0x1FA6, [0x1F6E, 0x399]), (0x1FA7, [0x1F6F, 0x399]), (0x1FA8, [0x1F68, 0x399]),
      (0x1FA9, [0x1F69, 0x399]), (0x1FAA, [0x1F6A, 0x399]), (0x1FAB, [0x1F6B, 0x399]),
      (0x1FAC, [0x1F6C, 0x399]), (0x1FAD, [0x1F6D, 0x399]), (0x1FAE, [0x1F6E, 0x399]),
      (0x1FAF, [0x1F6F, 0x399]), (0x1FB0, [0x1FB8]), (0x1FB1, [0x1FB9]),
      (0x1FB2, [0x1FBA, 0x399]), (0x1FB3, [0x391, 0x399]), (0x1FB4, [0x386, 0x399]),
      (0x1FB6, [0x391, 0x342]), (0x1FB7, [0x391, 0x342, 0x399]), (0x1FBC, [0x391, 0x399]),
      (0x1FBE, [0x399]), (0x1FC2, [0x1FCA, 0x399]), (0x1FC3, [0x397, 0x399]),
      (0x1FC4, [0x389, 0x399]), (0x1FC6, [0x397, 0x342]), (0x1FC7, [0x397, 0x342, 0x399]),
      (0x1FCC, [0x397, 0x399]), (0x1FD0, [0x1FD8]), (0x1FD1, [0x1FD9]),
      (0x1FD2, [0x399, 0x308, 0x300]), (0x1FD3, [0x399, 0x308, 0x301]),
      (0x1FD6, [0x399, 0x342]), (0x1FD7, [0x399, 0x308, 0x342]), (0x1FE0, [0x1FE8]),
      (0x1FE1, [0x1FE9]), (0x1FE2, [0x3A5, 0x308, 0x300]), (0x1FE3, [0x3A5, 0x308, 0x301]),
      (0x1FE4, [0x3A1, 0x313]), (0x1FE5, [0x1FEC]), (0x1FE6, [0x3A5, 0x342]),
      (0x1FE7, [0x3A5, 0x308, 0x342]), (0x1FF2, [0x1FFA, 0x399]), (0x1FF3, [0x3A9, 0x399]),
      (0x1FF4, [0x38F, 0x399]), (0x1FF6, [0x3A9, 0x342]), (0x1FF7, [0x3A9, 0x342, 0x399]),
      (0x1FFC, [0x3A9, 0x399]), (0x214E, [0x2132]), (0x2170, [0x2160]), (0x2171, [0x2161]),
      (0x2172, [0x2162]), (0x2173, [0x2163]), (0x2174, [0x2164]), (0x2175, [0x2165]),
      (0x2176, [0x2166]), (0x2177, [0x2167]), (0x2178, [0x2168]), (0x2179, [0x2169]),
      (0x217A, [0x216A]), (0x217B, [0x216B]), (0x217C, [0x216C]), (0x217D, [0x216D]),
      (0x217E, [0x216E]), (0x217F, [0x216F]), (0x2184, [0x2183]), (0x24D0, [0x24B6]),
      (0x24D1, [0x24B7]), (0x24D2, [0x24B8]), (0x24D3, [0x24B9]), (0x24D4, [0x24BA]),
      (0x24D5, [0x24BB]), (0x24D6, [0x24BC]), (0x24D7, [0x24BD]), (0x24D8, [0x24BE]),
      (0x24D9, [0x24BF]), (0x24DA, [0x24C0]), (0x24DB, [0x24C1]), (0x24DC, [0x24C2]),
      (0x24DD, [0x24C3]), (0x24DE, [0x24C4]), (0x24DF, [0x24C5]), (0x24E0, [0x24C6]),
      (0x24E1, [0x24C7]), (0x24E2, [0x24C8]), (0x24E3, [0x24C9]), (0x24E4, [0x24CA]),
      (0x24E5, [0x24CB]), (0x24E6, [0x24CC]), (0x24E7, [0x24CD]), (0x24E8, [0x24CE]),
      (0x24E9, [0x24CF]), (0x2C30, [0x2C00]), (0x2C31, [0x2C01]), (0x2C32, [0x2C02]),
      (0x2C33, [0x2C03]), (0x2C34, [0x2C04]), (0x2C35, [0x2C05]), (0x2C36, [0x2C06]),
      (0x2C37, [0x2C07]), (0x2C38, [0x2C08]), (0x2C39, [0x2C09]), (0x2C3A, [0x2C0A]),
      (0x2C3B, [0x2C0B]), (0x2C3C, [0x2C0C]), (0x2C3D, [0x2C0D]), (0x2C3E, [0x2C0E]),
      (0x2C3F, [0x2C0F]), (0x2C40, [0x2C10]), (0x2C41, [0x2C11]), (0x2C42, [0x2C12]),
      (0x2C43, [0x2C13]), (0x2C44, [0x2C14]), (0x2C45, [0x2C15]), (0x2C46, [0x2C16]),
      (0x2C47, [0x2C17]), (0x2C48, [0x2C18]), (0x2C49, [0x2C19]), (0x2C4A, [0x2C1A]),
      (0x2C4B, [0x2C1B]), (0x2C4C, [0x2C1C]), (0x2C4D, [0x2C1D]), (0x2C4E, [0x2C1E]),
      (0x2C4F, [0x2C1F]), (0x2C50, [0x2C20]), (0x2C51, [0x2C21]), (0x2C52, [0x2C22]),
      (0x2C53, [0x2C23]), (0x2C54, [0x2C24]), (0x2C55, [0x2C25]), (0x2C56, [0x2C26]),
      (0x2C57, [0x2C27]), (0x2C58, [0x2C28]), (0x2C59, [0x2C29]), (0x2C5A, [0x2C2A]),
      (0x2C5B, [0x2C2B]), (0x2C5C, [0x2C2C]), (0x2C5D, [0x2C2D]), (0x2C5E, [0x2C2E]),
      (0x2C5F, [0x2C2F]), (0x2C61, [0x2C60]), (0x2C65, [0x23A]), (0x2C66, [0x23E]),
      (0x2C68, [0x2C67]), (0x2C6A, [0x2C69]), (0x2C6C, [0x2C6B]), (0x2C73, [0x2C72]),
      (0x2C76, [0x2C75]), (0x2C81, [0x2C80]), (0x2C83, [0x2C82]), (0x2C85, [0x2C84]),
      (0x2C87, [0x2C86]), (0x2C89, [0x2C88]), (0x2C8B, [0x2C8A]), (0x2C8D, [0x2C8C]),
      (0x2C8F, [0x2C8E]), (0x2C91, [0x2C90]), (0x2C93, [0x2C92]), (0x2C95, [0x2C94]),
      (0x2C97, [0x2C96]), (0x2C99, [0x2C98]), (0x2C9B, [0x2C9A]), (0x2C9D, [0x2C9C]),
      (0x2C9F, [0x2C9E]), (0x2CA1, [0x2CA0]), (0x2CA3, [0x2CA2]), (0x2CA5, [0x2CA4]),
      (0x2CA7, [0x2CA6]), (0x2CA9, [0x2CA8]), (0x2CAB, [0x2CAA]), (0x2CAD, [0x2CAC]),
      (0x2CAF, [0x2CAE]), (0x2CB1, [0x2CB0]), (0x2CB3, [0x2CB2]), (0x2CB5, [0x2CB4]),
      (0x2CB7, [0x2CB6]), (0x2CB9, [0x2CB8]), (0x2CBB, [0x2CBA]), (0x2CBD, [0x2CBC]),
      (0x2CBF, [0x2CBE]), (0x2CC1, [0x2CC0]), (0x2CC3, [0x2CC2]), (0x2CC5, [0x2CC4]),
      (0x2CC7, [0x2CC6]), (0x2CC9, [0x2CC8]), (0x2CCB, [0x2CCA]), (0x2CCD, [0x2CCC]),
      (0x2CCF, [0x2CCE]), (0x2CD1, [0x2CD0]), (0x2CD3, [0x2CD2]), (0x2CD5, [0x2CD4]),
      (0x2CD7, [0x2CD6]), (0x2CD9, [0x2CD8]), (0x2CDB, [0x2CDA]), (0x2CDD, [0x2CDC]),
      (0x2CDF, [0x2CDE]), (0x2CE1, [0x2CE0]), (0x2CE3, [0x2CE2]), (0x2CEC, [0x2CEB]),
      (0x2CEE, [0x2CED]), (0x2CF3, [0x2CF2]), (0x2D00, [0x10A0]), (0x2D01, [0x10A1]),
      (0x2D02, [0x10A2]), (0x2D03, [0x10A3]), (0x2D04, [0x10A4]), (0x2D05, [0x10A5]),
      (0x2D06, [0x10A6]), (0x2D07, [0x10A7]), (0x2D08, [0x10A8]), (0x2D09, [0x10A9]),
      (0x2D0A, [0x10AA]), (0x2D0B, [0x10AB]), (0x2D0C, [0x10AC]), (0x2D0D, [0x10AD]),
      (0x2D0E, [0x10AE]), (0x2D0F, [0x10AF]), (0x2D10, [0x10B0]), (0x2D11, [0x10B1]),
      (0x2D12, [0x10B2]), (0x2D13, [0x10B3]), (0x2D14, [0x10B4]), (0x2D15, [0x10B5]),
      (0x2D16, [0x10B6]), (0x2D17, [0x10B7]), (0x2D18, [0x10B8]), (0x2D19, [0x10B9]),
      (0x2D1A, [0x10BA]), (0x2D1B, [0x10BB]), (0x2D1C, [0x10BC]), (0x2D1D, [0x10BD]),
      (0x2D1E, [0x10BE]), (0x2D1F, [0x10BF]), (0x2D20, [0x10C0]), (0x2D21, [0x10C1]),
      (0x2D22, [0x10C2]), (0x2D23, [0x10C3]), (0x2D24, [0x10C4]), (0x2D25, [0x10C5]),
      (0x2D27, [0x10C7]), (0x2D2D, [0x10CD]), (0xA641, [0xA640]), (0xA643, [0xA642]),
      (0xA645, [0xA644]), (0xA647, [0xA646]), (0xA649, [0xA648]), (0xA64B, [0xA64A]),
      (0xA64D, [0xA64C]), (0xA64F, [0xA64E]), (0xA651, [0xA650]), (0xA653, [0xA652]),
      (0xA655, [0xA654]), (0xA657, [0xA656]), (0xA659, [0xA658]), (0xA65B, [0xA65A]),
      (0xA65D, [0xA65C]), (0xA65F, [0xA65E]), (0xA661, [0xA660]), (0xA663, [0xA662]),
      (0xA665, [0xA664]), (0xA667, [0xA666]), (0xA669, [0xA668]), (0xA66B, [0xA66A]),
      (0xA66D, [0xA66C]), (0xA681, [0xA680]), (0xA683, [0xA682]), (0xA685, [0xA684]),
      (0xA687, [0xA686]), (0xA689, [0xA688]), (0xA68B, [0xA68A]), (0xA68D, [0xA68C]),
      (0xA68F, [0xA68E]), (0xA691, [0xA690]), (0xA693, [0xA692]), (0xA695, [0xA694]),
      (0xA697, [0xA696]), (0xA699, [0xA698]), (0xA69B, [0xA69A]), (0xA723, [0xA722]),
      (0xA725, [0xA724]), (0xA727, [0xA726]), (0xA729, [0xA728]), (0xA72B, [0xA72A]),
      (0xA72D, [0xA72C]), (0xA72F, [0xA72E]), (0xA733, [0xA732]), (0xA735, [0xA734]),
      (0xA737, [0xA736]), (0xA739, [0xA738]), (0xA73B, [0xA73A]), (0xA73D, [0xA73C]),
      (0xA73F, [0xA73E]), (0xA741, [0xA740]), (0xA743, [0xA742]), (0xA745, [0xA744]),
      (0xA747, [0xA746]), (0xA749, [0xA748]), (0xA74B, [0xA74A]), (0xA74D, [0xA74C]),
      (0xA74F, [0xA74E]), (0xA751, [0xA750]), (0xA753, [0xA752]), (0xA755, [0xA754]),
      (0xA757, [0xA756]), (0xA759, [0xA758]), (0xA75B, [0xA75A]), (0xA75D, [0xA75C]),
      (0xA75F, [0xA75E]), (0xA761, [0xA760]), (0xA763, [0xA762]), (0xA765, [0xA764]),
      (0xA767, [0xA766]), (0xA769, [0xA768]), (0xA76B, [0xA76A]), (0xA76D, [0xA76C]),
      (0xA76F, [0xA76E]), (0xA77A, [0xA779]), (0xA77C, [0xA77B]), (0xA77F, [0xA77E]),
      (0xA781, [0xA780]), (0xA783, [0xA782]), (0xA785, [0xA784]), (0xA787, [0xA786]),
      (0xA78C, [0xA78B]), (0xA791, [0xA790]), (0xA793, [0xA792]), (0xA794, [0xA7C4]),
      (0xA797, [0xA796]), (0xA799, [0xA798]), (0xA79B, [0xA79A]), (0xA79D, [0xA79C]),
      (0xA79F, [0xA79E]), (0xA7A1, [0xA7A0]), (0xA7A3, [0xA7A2]), (0xA7A5, [0xA7A4]),
      (0xA7A7, [0xA7A6]), (0xA7A9, [0xA7A8]), (0xA7B5, [0xA7B4]), (0xA7B7, [0xA7B6]),
      (0xA7B9, [0xA7B8]), (0xA7BB, [0xA7BA]), (0xA7BD, [0xA7BC]), (0xA7BF, [0xA7BE]),
      (0xA7C1, [0xA7C0]), (0xA7C3, [0xA7C2]), (0xA7C8, [0xA7C7]), (0xA7CA, [0xA7C9]),
      (0xA7D1, [0xA7D0]), (0xA7D7, [0xA7D6]), (0xA7D9, [0xA7D8]), (0xA7F6, [0xA7F5]),
      (0xAB53, [0xA7B3]), (0xAB70, [0x13A0]), (0xAB71, [0x13A1]), (0xAB72, [0x13A2]),
      (0xAB73, [0x13A3]), (0xAB74, [0x13A4]), (0xAB75, [0x13A5]), (0xAB76, [0x13A6]),
      (0xAB77, [0x13A7]), (0xAB78, [0x13A8]), (0xAB79, [0x13A9]), (0xAB7A, [0x13AA]),
      (0xAB7B, [0x13AB]), (0xAB7C, [0x13AC]), (0xAB7D, [0x13AD]), (0xAB7E, [0x13AE]),
      (0xAB7F, [0x13AF]), (0xAB80, [0x13B0]), (0xAB81, [0x13B1]), (0xAB82, [0x13B2]),
      (0xAB83, [0x13B3]), (0xAB84, [0x13B4]), (0xAB85, [0x13B5]), (0xAB86, [0x13B6]),
      (0xAB87, [0x13B7]), (0xAB88, [0x13B8]), (0xAB89, [0x13B9]), (0xAB8A, [0x13BA]),
      (0xAB8B, [0x13BB]), (0xAB8C, [0x13BC]), (0xAB8D, [0x13BD]), (0xAB8E, [0x13BE]),
      (0xAB8F, [0x13BF]), (0xAB90, [0x13C0]), (0xAB91, [0x13C1]), (0xAB92, [0x13C2]),
      (0xAB93, [0x13C3]), (0xAB94, [0x13C4]), (0xAB95, [0x13C5]), (0xAB96, [0x13C6]),
      (0xAB97, [0x13C7]), (0xAB98, [0x13C8]), (0xAB99, [0x13C9]), (0xAB9A, [0x13CA]),
      (0xAB9B, [0x13CB]), (0xAB9C, [0x13CC]), (0xAB9D, [0x13CD]), (0xAB9E, [0x13CE]),
      (0xAB9F, [0x13CF]), (0xABA0, [0x13D0]), (0xABA1, [0x13D1]), (0xABA2, [0x13D2]),
      (0xABA3, [0x13D3]), (0xABA4, [0x13D4]), (0xABA5, [0x13D5]), (0xABA6, [0x13D6]),
      (0xABA7, [0x13D7]), (0xABA8, [0x13D8]), (0xABA9, [0x13D9]), (0xABAA, [0x13DA]),
      (0xABAB, [0x13DB]), (0xABAC, [0x13DC]), (0xABAD, [0x13DD]), (0xABAE, [0x13DE]),
      (0xABAF, [0x13DF]), (0xABB0, [0x13E0]), (0xABB1, [0x13E1]), (0xABB2, [0x13E2]),
      (0xABB3, [0x13E3]), (0xABB4, [0x13E4]), (0xABB5, [0x13E5]), (0xABB6, [0x13E6]),
      (0xABB7, [0x13E7]), (0xABB8, [0x13E8]), (0xABB9, [0x13E9]), (0xABBA, [0x13EA]),
      (0xABBB, [0x13EB]), (0xABBC, [0x13EC]), (0xABBD, [0x13ED]), (0xABBE, [0x13EE]),
      (0xABBF, [0x13EF]), (0xFB00, [0x46, 0x46]), (0xFB01, [0x46, 0x49]),
      (0xFB02, [0x46, 0x4C]), (0xFB03, [0x46, 0x46, 0x49]), (0xFB04, [0x46, 0x46, 0x4C]),
      (0xFB05, [0x53, 0x54]), (0xFB06, [0x53, 0x54]), (0xFB13, [0x544, 0x546]),
      (0xFB14, [0x544, 0x535]), (0xFB15, [0x544, 0x53B]), (0xFB16, [0x54E, 0x546]),
      (0xFB17, [0x544, 0x53D]), (0xFF41, [0xFF21]), (0xFF42, [0xFF22]), (0xFF43, [0xFF23]),
      (0xFF44, [0xFF24]), (0xFF45, [0xFF25]), (0xFF46, [0xFF26]), (0xFF47, [0xFF27]),
      (0xFF48, [0xFF28]), (0xFF49, [0xFF29]), (0xFF4A, [0xFF2A]), (0xFF4B, [0xFF2B]),
      (0xFF4C, [0xFF2C]), (0xFF4D, [0xFF2D]), (0xFF4E, [0xFF2E]), (0xFF4F, [0xFF2F]),
      (0xFF50, [0xFF30]), (0xFF51, [0xFF31]), (0xFF52, [0xFF32]), (0xFF53, [0xFF33]),
      (0xFF54, [0xFF34]), (0xFF55, [0xFF35]), (0xFF56, [0xFF36]), (0xFF57, [0xFF37]),
      (0xFF58, [0xFF38]), (0xFF59, [0xFF39]), (0xFF5A, [0xFF3A]), (0x10428, [0x10400]),
      (0x10429, [0x10401]), (0x1042A, [0x10402]), (0x1042B, [0x10403]),
      (0x1042C, [0x10404]), (0x1042D, [0x10405]), (0x1042E, [0x10406]),
      (0x1042F, [0x10407]), (0x10430, [0x10408]), (0x10431, [0x10409]),
      (0x10432, [0x1040A]), (0x10433, [0x1040B]), (0x10434, [0x1040C]),
      (0x10435, [0x1040D]), (0x10436, [0x1040E]), (0x10437, [0x1040F]),
      (0x10438, [0x10410]), (0x10439, [0x10411]), (0x1043A, [0x10412]),
      (0x1043B, [0x10413]), (0x1043C, [0x10414]), (0x1043D, [0x10415]),
      (0x1043E, [0x10416]), (0x1043F, [0x10417]), (0x10440, [0x10418]),
      (0x10441, [0x10419]), (0x10442, [0x1041A]), (0x10443, [0x1041B]),
      (0x10444, [0x1041C]), (0x10445, [0x1041D]), (0x10446, [0x1041E]),
      (0x10447, [0x1041F]), (0x10448, [0x10420]), (0x10449, [0x10421]),
      (0x1044A, [0x10422]), (0x1044B, [0x10423]), (0x1044C, [0x10424]),
      (0x1044D, [0x10425]), (0x1044E, [0x10426]), (0x1044F, [0x10427]),
      (0x104D8, [0x104B0]), (0x104D9, [0x104B1]), (0x104DA, [0x104B2]),
      (0x104DB, [0x104B3]), (0x104DC, [0x104B4]), (0x104DD, [0x104B5]),
      (0x104DE, [0x104B6]), (0x104DF, [0x104B7]), (0x104E0, [0x104B8]),
      (0x104E1, [0x104B9]), (0x104E2, [0x104BA]), (0x104E3, [0x104BB]),
      (0x104E4, [0x104BC]), (0x104E5, [0x104BD]), (0x104E6, [0x104BE]),
      (0x104E7, [0x104BF]), (0x104E8, [0x104C0]), (0x104E9, [0x104C1]),
      (0x104EA, [0x104C2]), (0x104EB, [0x104C3]), (0x104EC, [0x104C4]),
      (0x104ED, [0x104C5]), (0x104EE, [0x104C6]), (0x104EF, [0x104C7]),
      (0x104F0, [0x104C8]), (0x104F1, [0x104C9]), (0x104F2, [0x104CA]),
      (0x104F3, [0x104CB]), (0x104F4, [0x104CC]), (0x104F5, [0x104CD]),
      (0x104F6, [0x104CE]), (0x104F7, [0x104CF]), (0x104F8, [0x104D0]),
      (0x104F9, [0x104D1]), (0x104FA, [0x104D2]), (0x104FB, [0x104D3]),
      (0x10597, [0x10570]), (0x10598, [0x10571]), (0x10599, [0x10572]),
      (0x1059A, [0x10573]), (0x1059B, [0x10574]), (0x1059C, [0x10575]),
      (0x1059D, [0x10576]), (0x1059E, [0x10577]), (0x1059F, [0x10578]),
      (0x105A0, [0x10579]), (0x105A1, [0x1057A]), (0x105A3, [0x1057C]),
      (0x105A4, [0x1057D]), (0x105A5, [0x1057E]), (0x105A6, [0x1057F]),
      (0x105A7, [0x10580]), (0x105A8, [0x10581]), (0x105A9, [0x10582]),
      (0x105AA, [0x10583]), (0x105AB, [0x10584]), (0x105AC, [0x10585]),
      (0x105AD, [0x10586]), (0x105AE, [0x10587]), (0x105AF, [0x10588]),
      (0x105B0, [0x10589]), (0x105B1, [0x1058A]), (0x105B3, [0x1058C]),
      (0x105B4, [0x1058D]), (0x105B5, [0x1058E]), (0x105B6, [0x1058F]),
      (0x105B7, [0x10590]), (0x105B8, [0x10591]), (0x105B9, [0x10592]),
      (0x105BB, [0x10594]), (0x105BC, [0x10595]), (0x10CC0, [0x10C80]),
      (0x10CC1, [0x10C81]), (0x10CC2, [0x10C82]), (0x10CC3, [0x10C83]),
      (0x10CC4, [0x10C84]), (0x10CC5, [0x10C85]), (0x10CC6, [0x10C86]),
      (0x10CC7, [0x10C87]), (0x10CC8, [0x10C88]), (0x10CC9, [0x10C89]),
      (0x10CCA, [0x10C8A]), (0x10CCB, [0x10C8B]), (0x10CCC, [0x10C8C]),
      (0x10CCD, [0x10C8D]), (0x10CCE, [0x10C8E]), (0x10CCF, [0x10C8F]),
      (0x10CD0, [0x10C90]), (0x10CD1, [0x10C91]), (0x10CD2, [0x10C92]),
      (0x10CD3, [0x10C93]), (0x10CD4, [0x10C94]), (0x10CD5, [0x10C95]),
      (0x10CD6, [0x10C96]), (0x10CD7, [0x10C97]), (0x10CD8, [0x10C98]),
      (0x10CD9, [0x10C99]), (0x10CDA, [0x10C9A]), (0x10CDB, [0x10C9B]),
      (0x10CDC, [0x10C9C]), (0x10CDD, [0x10C9D]), (0x10CDE, [0x10C9E]),
      (0x10CDF, [0x10C9F]), (0x10CE0, [0x10CA0]), (0x10CE1, [0x10CA1]),
      (0x10CE2, [0x10CA2]), (0x10CE3, [0x10CA3]), (0x10CE4, [0x10CA4]),
      (0x10CE5, [0x10CA5]), (0x10CE6, [0x10CA6]), (0x10CE7, [0x10CA7]),
      (0x10CE8, [0x10CA8]), (0x10CE9, [0x10CA9]), (0x10CEA, [0x10CAA]),
      (0x10CEB, [0x10CAB]), (0x10CEC, [0x10CAC]), (0x10CED, [0x10CAD]),
      (0x10CEE, [0x10CAE]), (0x10CEF, [0x10CAF]), (0x10CF0, [0x10CB0]),
      (0x10CF1, [0x10CB1]), (0x10CF2, [0x10CB2]), (0x118C0, [0x118A0]),
      (0x118C1, [0x118A1]), (0x118C2, [0x118A2]), (0x118C3, [0x118A3]),
      (0x118C4, [0x118A4]), (0x118C5, [0x118A5]), (0x118C6, [0x118A6]),
      (0x118C7, [0x118A7]), (0x118C8, [0x118A8]), (0x118C9, [0x118A9]),
      (0x118CA, [0x118AA]), (0x118CB, [0x118AB]), (0x118CC, [0x118AC]),
      (0x118CD, [0x118AD]), (0x118CE, [0x118AE]), (0x118CF, [0x118AF]),
      (0x118D0, [0x118B0]), (0x118D1, [0x118B1]), (0x118D2, [0x118B2]),
      (0x118D3, [0x118B3]), (0x118D4, [0x118B4]), (0x118D5, [0x118B5]),
      (0x118D6, [0x118B6]), (0x118D7, [0x118B7]), (0x118D8, [0x118B8]),
      (0x118D9, [0x118B9]), (0x118DA, [0x118BA]), (0x118DB, [0x118BB]),
      (0x118DC, [0x118BC]), (0x118DD, [0x118BD]), (0x118DE, [0x118BE]),
      (0x118DF, [0x118BF]), (0x16E60, [0x16E40]), (0x16E61, [0x16E41]),
      (0x16E62, [0x16E42]), (0x16E63, [0x16E43]), (0x16E64, [0x16E44]),
      (0x16E65, [0x16E45]), (0x16E66, [0x16E46]), (0x16E67, [0x16E47]),
      (0x16E68, [0x16E48]), (0x16E69, [0x16E49]), (0x16E6A, [0x16E4A]),
      (0x16E6B, [0x16E4B]), (0x16E6C, [0x16E4C]), (0x16E6D, [0x16E4D]),
      (0x16E6E, [0x16E4E]), (0x16E6F, [0x16E4F]), (0x16E70, [0x16E50]),
      (0x16E71, [0x16E51]), (0x16E72, [0x16E52]), (0x16E73, [0x16E53]),
      (0x16E74, [0x16E54]), (0x16E75, [0x16E55]), (0x16E76, [0x16E56]),
      (0x16E77, [0x16E57]), (0x16E78, [0x16E58]), (0x16E79, [0x16E59]),
      (0x16E7A, [0x16E5A]), (0x16E7B, [0x16E5B]), (0x16E7C, [0x16E5C]),
      (0x16E7D, [0x16E5D]), (0x16E7E, [0x16E5E]), (0x16E7F, [0x16E5F]),
      (0x1E922, [0x1E900]), (0x1E923, [0x1E901]), (0x1E924, [0x1E902]),
      (0x1E925, [0x1E903]), (0x1E926, [0x1E904]), (0x1E927, [0x1E905]),
      (0x1E928, [0x1E906]), (0x1E929, [0x1E907]), (0x1E92A, [0x1E908]),
      (0x1E92B, [0x1E909]), (0x1E92C, [0x1E90A]), (0x1E92D, [0x1E90B]),
      (0x1E92E, [0x1E90C]), (0x1E92F, [0x1E90D]), (0x1E930, [0x1E90E]),
      (0x1E931, [0x1E90F]), (0x1E932, [0x1E910]), (0x1E933, [0x1E911]),
      (0x1E934, [0x1E912]), (0x1E935, [0x1E913]), (0x1E936, [0x1E914]),
      (0x1E937, [0x1E915]), (0x1E938, [0x1E916]), (0x1E939, [0x1E917]),
      (0x1E93A, [0x1E918]), (0x1E93B, [0x1E919]), (0x1E93C, [0x1E91A]),
      (0x1E93D, [0x1E91B]), (0x1E93E, [0x1E91C]), (0x1E93F, [0x1E91D]),
      (0x1E940, [0x1E91E]), (0x1E941, [0x1E91F]), (0x1E942, [0x1E920]),
      (0x1E943, [0x1E921])]"

fun lookup_upper :: "nat \<Rightarrow> (nat \<times> nat list) list \<Rightarrow> nat list" where
  "lookup_upper c [] = [c]"
| "lookup_upper c ((k, v) # rest) = (if c = k then v else lookup_upper c rest)"

definition upper_char :: "nat \<Rightarrow> nat list" where
  "upper_char c =
     (if c < 128 then (if 97 \<le> c \<and> c \<le> 122 then [c - 32] else [c])
      else lookup_upper c upper_table)"

definition upper :: "ustring \<Rightarrow> ustring" where
  "upper s = concat (map upper_char s)"

text \<open>\<open>s.replace(old, new)\<close> for one-character \<open>old\<close> and \<open>new\<close>.\<close>

definition replace_char :: "nat \<Rightarrow> nat \<Rightarrow> ustring \<Rightarrow> ustring" where
  "replace_char old new s = map (\<lambda>c. if c = old then new else c) s"

text \<open>\<open>s.split(sep)\<close> for a one-character separator; the empty string splits into one empty string.\<close>

fun str_split :: "nat \<Rightarrow> ustring \<Rightarrow> ustring list" where
  "str_split sep [] = [[]]"
| "str_split sep (c # cs) =
     (if c = sep then [] # str_split sep cs
      else (case str_split sep cs of
              w # ws \<Rightarrow> (c # w) # ws
            | [] \<Rightarrow> [[c]]))"

text \<open>\<open>sep.join(parts)\<close>.\<close>

fun str_join :: "ustring \<Rightarrow> ustring list \<Rightarrow> ustring" where
  "str_join sep [] = []"
| "str_join sep [x] = x"
| "str_join sep (x # y # ys) = x @ sep @ str_join sep (y # ys)"

text \<open>\<open>s.rjust(width, fill)\<close>.\<close>

definition rjust :: "nat \<Rightarrow> nat \<Rightarrow> ustring \<Rightarrow> ustring" where
  "rjust width fill s = replicate (width - length s) fill @ s"

text \<open>\<open>str(n)\<close> for Python's unbounded integers.\<close>

definition digit_char :: "nat \<Rightarrow> nat" where
  "digit_char d = u ''0123456789'' ! d"

fun str_nat :: "nat \<Rightarrow> ustring" where
  "str_nat n = (if n < 10 then [digit_char n] else str_nat (n div 10) @ [digit_char (n mod 10)])"

declare str_nat.simps [simp del]

definition str_int :: "int \<Rightarrow> ustring" where
  "str_int i = (if i < 0 then ord (CHR ''-'') # str_nat (nat (- i)) else str_nat (nat i))"

text \<open>
  A float is NaN, or integral (\<open>x.is_integer()\<close>, carrying \<open>int(x)\<close>), or anything else
  (a value with a fractional part, or an infinity), which carries its \<open>str(x)\<close>: Python's
  shortest-representation float formatting is not modelled.
\<close>

datatype pyfloat = FNaN | FIntegral int | FOther ustring

text \<open>
  A cell of a row: \<open>None\<close>, a float, a string, an integer, or any other object, which
  carries its \<open>str(x)\<close>.
\<close>

datatype pyval = PNone | PFloat pyfloat | PStr ustring | PInt int | PObj ustring

definition smart_str :: "pyval \<Rightarrow> ustring" where
  "smart_str x =
     (case x of
        PNone \<Rightarrow> []
      | PFloat f \<Rightarrow>
          (case f of
             FNaN \<Rightarrow> []
           | FIntegral i \<Rightarrow> str_int i
           | FOther t \<Rightarrow> t)
      | PStr s \<Rightarrow> strip s
      | PInt i \<Rightarrow> strip (str_int i)
      | PObj t \<Rightarrow> strip t)"

definition abbrev_label :: "ustring \<Rightarrow> ustring" where
  "abbrev_label colname =
     (if colname = [] then (u ''VAL'')
      else
        let seg = hd (str_split (ord (CHR ''_''))
                       (replace_char (ord (CHR '' '')) (ord (CHR ''_''))
                          (replace_char (ord (CHR ''-'')) (ord (CHR ''_'')) colname)));
            seg = upper (strip seg)
        in if length seg \<le> 4 then seg else take 4 seg)"

section \<open>The application state\<close>

text \<open>
  A row of the data frame: \<open>row.get(col, "")\<close> is the cell, or the empty string
  when the column is absent.
\<close>

type_synonym row = "ustring \<rightharpoonup> pyval"

definition row_get :: "row \<Rightarrow> ustring \<Rightarrow> pyval" where
  "row_get r col = (case r col of Some v \<Rightarrow> v | None \<Rightarrow> PStr [])"

text \<open>One entry of \<open>self._ean13_oversized\<close>.\<close>

record rejected =
  COD_IN :: ustring
  COD_EAN :: ustring
  DES_PRODUTO :: ustring
  LEN :: nat

text \<open>
  The part of \<open>ExportadorTXTApp\<close> that line assembly reads and writes, together with
  the two module-level globals \<open>BASE_COL\<close> and \<open>MANDATORY_PREFIX\<close>.  \<open>col_vars\<close> is
  iterated in insertion order, so it is an association list; \<open>label_vars\<close> is only
  looked up.
\<close>

record app =
  BASE_COL :: ustring
  MANDATORY_PREFIX :: "ustring list"
  opening_var :: ustring
  closing_var :: ustring
  pair_sep_var :: ustring
  label_sep_var :: ustring
  col_vars :: "(ustring \<times> bool) list"
  label_vars :: "ustring \<rightharpoonup> ustring"
  validate_ean13 :: bool
  ean13_oversized :: "rejected list"

datatype error = KeyError | OSError

section \<open>Barcode check\<close>

definition ean13_fix_and_validate :: "pyval \<Rightarrow> bool \<times> ustring" where
  "ean13_fix_and_validate v =
     (let s = smart_str v;
          digits = filter isdigit s
      in if length digits > 13 then (False, [])
         else (True, rjust 13 (ord (CHR ''0'')) digits))"

section \<open>Building a line\<close>

text \<open>The conditional expression that renders one pair of the extra block.\<close>

definition fragment :: "ustring \<Rightarrow> ustring \<Rightarrow> ustring \<Rightarrow> ustring" where
  "fragment label label_sep val = (if label \<noteq> [] then label @ label_sep @ val else val)"

text \<open>
  The loop of \<open>_build_extra_block\<close> over \<open>self.col_vars.items()\<close>;
  \<open>self.label_vars[col]\<close> raises \<open>KeyError\<close> for a ticked column without a label.
\<close>

fun extra_parts :: "app \<Rightarrow> row \<Rightarrow> (ustring \<times> bool) list \<Rightarrow> error + ustring list" where
  "extra_parts a r [] = Inr []"
| "extra_parts a r ((col, var) # rest) =
     (if var then
        (case label_vars a col of
           None \<Rightarrow> Inl KeyError
         | Some lab \<Rightarrow>
             (let label = strip lab;
                  val = smart_str (row_get r col)
              in case extra_parts a r rest of
                   Inl e \<Rightarrow> Inl e
                 | Inr parts \<Rightarrow>
                     Inr (if val \<noteq> [] then fragment label (label_sep_var a) val # parts
                          else parts)))
      else extra_parts a r rest)"

definition build_extra_block :: "app \<Rightarrow> row \<Rightarrow> error + ustring" where
  "build_extra_block a r =
     (case extra_parts a r (col_vars a) of
        Inl e \<Rightarrow> Inl e
      | Inr parts \<Rightarrow>
          Inr (if parts \<noteq> []
               then opening_var a @ str_join (pair_sep_var a) parts @ closing_var a
               else []))"

text \<open>The description that ends a line: the base text and the extra block.\<close>

definition desc_final :: "ustring \<Rightarrow> ustring \<Rightarrow> ustring" where
  "desc_final base_text extra =
     (if extra \<noteq> [] then strip (base_text @ u '' '' @ extra) else base_text)"

text \<open>
  \<open>_build_line\<close> returns the line, or \<open>None\<close> for a row it rejects, and appends to
  \<open>self._ean13_oversized\<close>: the new state is returned with the result.  The prefix is
  read from the columns \<open>COD_INTERNO\<close> and \<open>COD_EAN\<close>, which the function names
  literally.
\<close>

definition finish_line :: "app \<Rightarrow> row \<Rightarrow> ustring \<Rightarrow> ustring \<Rightarrow> error + (ustring option \<times> app)" where
  "finish_line a r cod_interno cod_ean =
     (let base_text = smart_str (row_get r (BASE_COL a))
      in case build_extra_block a r of
           Inl e \<Rightarrow> Inl e
         | Inr extra \<Rightarrow>
             Inr (Some (cod_interno @ u ''|'' @ cod_ean @ u ''|'' @ desc_final base_text extra), a))"

definition build_line :: "app \<Rightarrow> row \<Rightarrow> error + (ustring option \<times> app)" where
  "build_line a r =
     (let cod_interno = smart_str (row_get r (u ''COD_INTERNO''));
          raw_ean = row_get r (u ''COD_EAN'')
      in if validate_ean13 a then
           (case ean13_fix_and_validate raw_ean of
              (ok, ean) \<Rightarrow>
                if \<not> ok then
                  Inr (None,
                       a\<lparr>ean13_oversized := ean13_oversized a @
                          [\<lparr>COD_IN = cod_interno,
                            COD_EAN = smart_str raw_ean,
                            DES_PRODUTO = smart_str (row_get r (BASE_COL a)),
                            LEN = length (filter isdigit (smart_str raw_ean))\<rparr>]\<rparr>)
                else finish_line a r cod_interno ean)
         else finish_line a r cod_interno (smart_str raw_ean))"

text \<open>
  The loop over the rows in \<open>on_preview\<close> (\<open>on_save\<close> runs the same loop and writes
  each line to the output file): every row is offered to \<open>_build_line\<close>, and the
  lines that are not \<open>None\<close> are kept in row order.
\<close>

fun build_lines :: "app \<Rightarrow> row list \<Rightarrow> error + (ustring list \<times> app)" where
  "build_lines a [] = Inr ([], a)"
| "build_lines a (r # rs) =
     (case build_line a r of
        Inl e \<Rightarrow> Inl e
      | Inr (line, a') \<Rightarrow>
          (case build_lines a' rs of
             Inl e \<Rightarrow> Inl e
           | Inr (lines, a'') \<Rightarrow>
               Inr ((case line of Some l \<Rightarrow> l # lines | None \<Rightarrow> lines), a'')))"

section \<open>The log of rejected barcodes\<close>

text \<open>
  The strings that \<open>_write_ean13_log\<close> passes to \<open>fh.write\<close>, in order; the accented
  letter of the header is the code point 0xED.  \<open>now\<close> is
  \<open>datetime.now().strftime(...)\<close>.
\<close>

definition log_header :: "app \<Rightarrow> ustring \<Rightarrow> ustring \<Rightarrow> ustring" where
  "log_header a context now =
     (u ''['') @ now @ u ''] '' @ context @ u '' - Itens com EAN > 13 d'' @ [0xED] @ u ''gitos: ''
       @ str_nat (length (ean13_oversized a)) @ [0x0A]"

definition log_columns :: ustring where
  "log_columns =
     (u ''COD_INTERNO'') @ [0x09] @ u ''COD_EAN'' @ [0x09] @ u ''DES_PRODUTO'' @ [0x09]
       @ u ''LEN'' @ [0x0A]"

definition log_record :: "rejected \<Rightarrow> ustring" where
  "log_record rec =
     COD_IN rec @ [0x09] @ COD_EAN rec @ [0x09]
       @ replace_char (0x0A) (ord (CHR '' '')) (DES_PRODUTO rec) @ [0x09]
       @ str_nat (LEN rec) @ [0x0A]"

definition log_writes :: "app \<Rightarrow> ustring \<Rightarrow> ustring \<Rightarrow> ustring list" where
  "log_writes a context now =
     log_header a context now # log_columns # map log_record (ean13_oversized a) @ [[0x0A]]"

text \<open>
  The outside world of the logger: the content of \<open>ean13_invalid.log\<close> (\<open>None\<close> when
  the file does not exist) and the number of input/output operations that succeed before
  one raises \<open>OSError\<close> (\<open>None\<close> when none fails).  Opening the file is the first
  operation, every \<open>fh.write\<close> is one more.
\<close>

record io =
  log_file :: "ustring option"
  io_budget :: "nat option"

fun write_all :: "nat option \<Rightarrow> ustring list \<Rightarrow> ustring \<Rightarrow> error option \<times> ustring" where
  "write_all budget [] content = (None, content)"
| "write_all budget (chunk # chunks) content =
     (case budget of
        Some 0 \<Rightarrow> (Some OSError, content)
      | Some (Suc k) \<Rightarrow> write_all (Some k) chunks (content @ chunk)
      | None \<Rightarrow> write_all None chunks (content @ chunk))"

text \<open>The body of the \<open>try\<close>: the exception that leaves it, if any, and the world after.\<close>

definition write_ean13_log_body :: "app \<Rightarrow> ustring \<Rightarrow> ustring \<Rightarrow> io \<Rightarrow> error option \<times> io" where
  "write_ean13_log_body a context now w =
     (case io_budget w of
        Some 0 \<Rightarrow> (Some OSError, w)
      | _ \<Rightarrow>
          (let budget = map_option (\<lambda>k. k - 1) (io_budget w);
               content = (case log_file w of Some c \<Rightarrow> c | None \<Rightarrow> []);
               (exn, content') = write_all budget (log_writes a context now) content
           in (exn, w\<lparr>log_file := Some content'\<rparr>)))"

text \<open>
  \<open>_write_ean13_log\<close>: nothing to do without rejected records; otherwise the body runs
  under \<open>except Exception: pass\<close>.  The first component is the exception that reaches
  the caller.
\<close>

definition write_ean13_log :: "app \<Rightarrow> ustring \<Rightarrow> ustring \<Rightarrow> io \<Rightarrow> error option \<times> io" where
  "write_ean13_log a context now w =
     (if ean13_oversized a = [] then (None, w)
      else (case write_ean13_log_body a context now w of
              (Some e, w') \<Rightarrow> (None, w')
            | (None, w') \<Rightarrow> (None, w')))"

section \<open>The preview\<close>

record dataframe =
  df_columns :: "ustring list"
  df_rows :: "row list"

definition preview_context :: ustring where
  "preview_context =
     (u ''Pr'') @ [0xE9] @ u ''-visualiza'' @ [0xE7, 0xE3] @ u ''o''"

text \<open>
  \<open>on_preview\<close>: the lines put into the preview box (\<open>None\<close> when the function returns
  early: no data loaded, or no base column), the application state and the world after.
  The message boxes are not modelled.
\<close>

definition on_preview :: "app \<Rightarrow> dataframe option \<Rightarrow> ustring \<Rightarrow> io \<Rightarrow> error + (ustring list option \<times> app \<times> io)" where
  "on_preview a df now w =
     (case df of
        None \<Rightarrow> Inr (None, a, w)
      | Some d \<Rightarrow>
          if BASE_COL a \<notin> set (df_columns d) then Inr (None, a, w)
          else
            (case build_lines (a\<lparr>ean13_oversized := []\<rparr>) (take 10 (df_rows d)) of
               Inl e \<Rightarrow> Inl e
             | Inr (lines, a') \<Rightarrow>
                 if validate_ean13 a' \<and> ean13_oversized a' \<noteq> [] then
                   (case write_ean13_log a' preview_context now w of
                      (Some e, w') \<Rightarrow> Inl e
                    | (None, w') \<Rightarrow> Inr (Some lines, a', w'))
                 else Inr (Some lines, a', w)))"

section \<open>Auxiliary notions and scenarios\<close>

text \<open>A string without leading or trailing white space.\<close>

definition trimmed :: "ustring \<Rightarrow> bool" where
  "trimmed s \<longleftrightarrow> (s = [] \<or> (\<not> isspace (hd s) \<and> \<not> isspace (last s)))"

text \<open>
  A description of the extra block that does not follow the loop: the ticked columns whose
  normalised value is not empty, in the order of \<open>col_vars\<close>, and the pair each of them
  contributes.  \<open>labels_ok\<close> says that every ticked column has an entry in
  \<open>label_vars\<close>, as it has after \<open>_populate_columns_ui\<close>, which fills both
  dictionaries in one loop.
\<close>

definition included_cols :: "row \<Rightarrow> (ustring \<times> bool) list \<Rightarrow> ustring list" where
  "included_cols r cvs =
     map fst (filter (\<lambda>(col, var). var \<and> smart_str (row_get r col) \<noteq> []) cvs)"

definition col_fragment :: "app \<Rightarrow> row \<Rightarrow> ustring \<Rightarrow> ustring" where
  "col_fragment a r col =
     fragment (case label_vars a col of Some lab \<Rightarrow> strip lab | None \<Rightarrow> [])
       (label_sep_var a) (smart_str (row_get r col))"

definition labels_ok :: "app \<Rightarrow> bool" where
  "labels_ok a \<longleftrightarrow> (\<forall>(col, var) \<in> set (col_vars a). var \<longrightarrow> label_vars a col \<noteq> None)"

text \<open>
  The line as the specification words it, to be compared with \<open>build_line\<close>: the
  fields of the configured prefix columns joined with \<open>|\<close>, then \<open>|\<close>, then the
  description.  A field is the normalised value of its column; with the barcode check on,
  the field of the barcode column is the code that the check returns.
\<close>

definition spec_prefix_field :: "app \<Rightarrow> row \<Rightarrow> ustring \<Rightarrow> ustring" where
  "spec_prefix_field a r col =
     (if validate_ean13 a \<and> col = u ''COD_EAN''
      then snd (ean13_fix_and_validate (row_get r col))
      else smart_str (row_get r col))"

definition spec_prefix_line :: "app \<Rightarrow> row \<Rightarrow> ustring \<Rightarrow> ustring" where
  "spec_prefix_line a r description =
     str_join (u ''|'') (map (spec_prefix_field a r) (MANDATORY_PREFIX a))
       @ u ''|'' @ description"

text \<open>
  The state after \<open>__init__\<close> with the module's constants, and the row and column
  selection of the end-to-end scenario A.
\<close>

definition default_app :: app where
  "default_app =
     \<lparr>BASE_COL = u ''DES_PRODUTO'',
      MANDATORY_PREFIX = [u ''COD_INTERNO'', u ''COD_EAN''],
      opening_var = u ''('',
      closing_var = u '')'',
      pair_sep_var = u '' / '',
      label_sep_var = u '': '',
      col_vars = [],
      label_vars = Map.empty,
      validate_ean13 = False,
      ean13_oversized = []\<rparr>"

definition scenario_app :: app where
  "scenario_app =
     default_app\<lparr>col_vars := [(u ''DEPARTAMENTO'', True), (u ''QTD_ESTOQUE_ATUAL'', True)],
                 label_vars := [u ''DEPARTAMENTO'' \<mapsto> u ''DEP'', u ''QTD_ESTOQUE_ATUAL'' \<mapsto> u ''QTD'']\<rparr>"

definition scenario_row :: row where
  "scenario_row =
     [u ''COD_INTERNO'' \<mapsto> PStr (u ''123''),
      (u ''COD_EAN'') \<mapsto> PStr (u ''789''),
      (u ''DES_PRODUTO'') \<mapsto> PStr (u ''ADSTRIGENTE 387 FACE BEAUTIFUL''),
      (u ''DEPARTAMENTO'') \<mapsto> PStr (u ''GERAL''),
      (u ''QTD_ESTOQUE_ATUAL'') \<mapsto> PFloat (FIntegral 3)]"

text \<open>
  Further inputs: a prefix list of one column; one ticked column, with its label, with a
  closing string that ends in a space, and with a label of a no-break space and a space; a row without base
  text and a row without values; the barcode check switched on, with a barcode of 14 digits
  and one of 2 digits; a log file that cannot be opened.
\<close>

definition prefix_app :: app where
  "prefix_app = default_app\<lparr>MANDATORY_PREFIX := [u ''COD_INTERNO'']\<rparr>"

definition prefix_row :: row where
  "prefix_row =
     [u ''COD_INTERNO'' \<mapsto> PStr (u ''1''), u ''COD_EAN'' \<mapsto> PStr (u ''2''), u ''DES_PRODUTO'' \<mapsto> PStr (u ''X'')]"

definition dep_app :: app where
  "dep_app =
     default_app\<lparr>col_vars := [(u ''DEPARTAMENTO'', True)],
                 label_vars := [u ''DEPARTAMENTO'' \<mapsto> u ''DEP'']\<rparr>"

definition trailing_app :: app where
  "trailing_app =
     default_app\<lparr>closing_var := u '') '',
                 col_vars := [(u ''DEPARTAMENTO'', True)],
                 label_vars := [u ''DEPARTAMENTO'' \<mapsto> u ''DEP'']\<rparr>"

definition trailing_row :: row where
  "trailing_row =
     [u ''COD_INTERNO'' \<mapsto> PStr (u ''1''), u ''COD_EAN'' \<mapsto> PStr (u ''2''), u ''DES_PRODUTO'' \<mapsto> PStr [],
      (u ''DEPARTAMENTO'') \<mapsto> PStr (u ''GERAL'')]"

definition blank_label_app :: app where
  "blank_label_app =
     default_app\<lparr>col_vars := [(u ''DEPARTAMENTO'', True)],
                 label_vars := [u ''DEPARTAMENTO'' \<mapsto> [0xA0, 0x20]]\<rparr>"

definition empty_row :: row where
  "empty_row = [u ''DEPARTAMENTO'' \<mapsto> PStr (u ''  ''), u ''QTD_ESTOQUE_ATUAL'' \<mapsto> PFloat FNaN]"

definition reject_app :: app where
  "reject_app = default_app\<lparr>validate_ean13 := True\<rparr>"

definition long_row :: row where
  "long_row =
     [u ''COD_INTERNO'' \<mapsto> PStr (u ''7''), u ''COD_EAN'' \<mapsto> PStr (u ''12345678901234''),
      (u ''DES_PRODUTO'') \<mapsto> PStr (u ''X'')]"

definition short_row :: row where
  "short_row =
     [u ''COD_INTERNO'' \<mapsto> PStr (u ''8''), u ''COD_EAN'' \<mapsto> PStr (u ''42''), u ''DES_PRODUTO'' \<mapsto> PStr (u ''Y'')]"

definition long_rejected :: rejected where
  "long_rejected = \<lparr>COD_IN = u ''7'', COD_EAN = u ''12345678901234'', DES_PRODUTO = u ''X'', LEN = 14\<rparr>"

definition preview_frame :: dataframe where
  "preview_frame =
     \<lparr>df_columns = [u ''COD_INTERNO'', u ''COD_EAN'', u ''DES_PRODUTO''],
      df_rows = [long_row, short_row]\<rparr>"

definition broken_io :: io where
  "broken_io = \<lparr>log_file = None, io_budget = Some 0\<rparr>"

section \<open>Properties\<close>

lemmas eval_defs =
  row_get_def smart_str_def strip_def lstrip_def rstrip_def isspace_def space_table_def isdigit_def digit_table_def u_def
  build_line_def finish_line_def build_extra_block_def desc_final_def fragment_def
  default_app_def Let_def

subsection \<open>Stripping\<close>

lemma lstrip_id: "s = [] \<or> \<not> isspace (hd s) \<Longrightarrow> lstrip s = s"
  by (cases s) (auto simp: lstrip_def)

lemma rstrip_id: "s = [] \<or> \<not> isspace (last s) \<Longrightarrow> rstrip s = s"
proof (cases "s = []")
  case True
  then show ?thesis by (simp add: rstrip_def)
next
  case False
  assume "s = [] \<or> \<not> isspace (last s)"
  with False have "\<not> isspace (hd (rev s))" by (simp add: hd_rev)
  moreover from False have "rev s \<noteq> []" by simp
  ultimately have "dropWhile isspace (rev s) = rev s"
    by (cases "rev s") auto
  then show ?thesis by (simp add: rstrip_def)
qed

lemma strip_trimmed: "trimmed s \<Longrightarrow> strip s = s"
  unfolding trimmed_def strip_def
  by (auto simp: lstrip_id rstrip_id)

lemma lstrip_head: "lstrip s \<noteq> [] \<Longrightarrow> \<not> isspace (hd (lstrip s))"
  unfolding lstrip_def by (rule hd_dropWhile)

lemma rstrip_last: "rstrip s \<noteq> [] \<Longrightarrow> \<not> isspace (last (rstrip s))"
  unfolding rstrip_def using hd_dropWhile [of isspace "rev s"]
  by (simp add: last_rev)

lemma rstrip_head: "\<not> isspace (hd s) \<Longrightarrow> rstrip s \<noteq> [] \<Longrightarrow> hd (rstrip s) = hd s"
proof (induction s rule: rev_induct)
  case Nil
  then show ?case by (simp add: rstrip_def)
next
  case (snoc x xs)
  show ?case
  proof (cases "isspace x")
    case True
    then have eq: "rstrip (xs @ [x]) = rstrip xs" by (simp add: rstrip_def)
    with snoc.prems have ne: "rstrip xs \<noteq> []" by simp
    then have "xs \<noteq> []" by (auto simp: rstrip_def)
    with snoc.prems have "\<not> isspace (hd xs)" by simp
    with snoc.IH ne have "hd (rstrip xs) = hd xs" by simp
    with eq \<open>xs \<noteq> []\<close> show ?thesis by simp
  next
    case False
    then show ?thesis by (simp add: rstrip_def)
  qed
qed

lemma strip_is_trimmed: "trimmed (strip s)"
proof (cases "strip s = []")
  case True
  then show ?thesis by (simp add: trimmed_def)
next
  case False
  then have r: "rstrip (lstrip s) \<noteq> []" by (simp add: strip_def)
  then have l: "lstrip s \<noteq> []" by (auto simp: rstrip_def)
  from l have "\<not> isspace (hd (lstrip s))" by (rule lstrip_head)
  with r have "hd (rstrip (lstrip s)) = hd (lstrip s)" by (simp add: rstrip_head)
  with \<open>\<not> isspace (hd (lstrip s))\<close> rstrip_last [OF r] show ?thesis
    by (simp add: trimmed_def strip_def)
qed

lemma strip_Nil: "strip [] = []"
  by (simp add: strip_def lstrip_def rstrip_def)

lemma strip_idem: "strip (strip s) = strip s"
  by (rule strip_trimmed) (rule strip_is_trimmed)

lemma strip_all_space: "\<forall>c\<in>set s. isspace c \<Longrightarrow> strip s = []"
proof -
  assume "\<forall>c\<in>set s. isspace c"
  then have "lstrip s = []" by (simp add: lstrip_def)
  then show ?thesis by (simp add: strip_def rstrip_def)
qed

lemma strip_space_cons: "isspace c \<Longrightarrow> strip (c # s) = strip s"
  by (simp add: strip_def lstrip_def)

lemma space_not_digit: "\<forall>c\<in>set space_table. \<not> isdigit c"
  by (simp add: space_table_def isdigit_def digit_table_def)

lemma digit_not_space: "isdigit c \<Longrightarrow> \<not> isspace c"
  using space_not_digit by (auto simp: isspace_def)

lemma digits_trimmed: "\<forall>c\<in>set s. isdigit c \<Longrightarrow> trimmed s"
  by (cases s rule: rev_cases) (auto simp: trimmed_def digit_not_space hd_append)

lemma bracketed_trimmed: "trimmed (u ''('' @ m @ u '')'')"
  by (simp add: trimmed_def isspace_def space_table_def u_def)

subsection \<open>Normalisation\<close>

lemma set_str_nat: "set (str_nat n) \<subseteq> set (u ''0123456789'')"
proof (induction n rule: str_nat.induct)
  case (1 n)
  have d: "\<And>k. k < 10 \<Longrightarrow> digit_char k \<in> set (u ''0123456789'')"
    unfolding digit_char_def by (rule nth_mem) (simp add: u_def)
  show ?case
  proof (cases "n < 10")
    case True
    then show ?thesis using d [of n] by (subst str_nat.simps) simp
  next
    case False
    then have "set (str_nat (n div 10)) \<subseteq> set (u ''0123456789'')" using 1 by simp
    moreover have "digit_char (n mod 10) \<in> set (u ''0123456789'')" by (rule d) simp
    ultimately show ?thesis using False by (subst str_nat.simps) simp
  qed
qed

lemma str_nat_nonempty: "str_nat n \<noteq> []"
  by (subst str_nat.simps) simp

lemma ascii_digit_not_space: "c \<in> set (u ''0123456789'') \<Longrightarrow> \<not> isspace c"
  by (auto simp: isspace_def space_table_def u_def)

lemma str_int_trimmed: "trimmed (str_int i)"
proof -
  have l: "\<And>n. \<not> isspace (last (str_nat n))"
    using set_str_nat str_nat_nonempty ascii_digit_not_space by (meson last_in_set subsetD)
  have h: "\<And>n. \<not> isspace (hd (str_nat n))"
    using set_str_nat str_nat_nonempty ascii_digit_not_space by (meson hd_in_set subsetD)
  have m: "\<not> isspace (ord (CHR ''-''))"
    by (simp add: isspace_def space_table_def)
  show ?thesis
    using l h m str_nat_nonempty by (auto simp: str_int_def trimmed_def)
qed

text \<open>
  Claim C6.  \<open>smart_str\<close> returns a string without leading or trailing white space
  unchanged, and so it is idempotent on strings: normalising the result of normalising a
  string changes nothing.  The same holds for the result of normalising any cell other
  than a float that is neither NaN nor integral, whose text the model takes as given.
\<close>

theorem smart_str_idempotent:
  "(trimmed s \<longrightarrow> smart_str (PStr s) = s)
   \<and> smart_str (PStr (smart_str (PStr s))) = smart_str (PStr s)
   \<and> ((\<forall>t. x \<noteq> PFloat (FOther t)) \<longrightarrow> smart_str (PStr (smart_str x)) = smart_str x)"
proof (intro conjI impI)
  assume "trimmed s"
  then show "smart_str (PStr s) = s" by (simp add: smart_str_def strip_trimmed)
next
  show "smart_str (PStr (smart_str (PStr s))) = smart_str (PStr s)"
    by (simp add: smart_str_def strip_idem)
next
  assume "\<forall>t. x \<noteq> PFloat (FOther t)"
  then show "smart_str (PStr (smart_str x)) = smart_str x"
    by (cases x)
      (auto simp: smart_str_def strip_idem strip_trimmed str_int_trimmed strip_Nil
        split: pyfloat.splits)
qed

text \<open>The property at concrete strings and at the float \<open>3.0\<close>.\<close>

theorem smart_str_idempotent_witness:
  "trimmed (u ''A B'') \<and> smart_str (PStr (u ''A B'')) = u ''A B''
   \<and> smart_str (PStr (0xA0 # u '' A B '' @ [0x2003])) = u ''A B''
   \<and> smart_str (PStr (smart_str (PStr (0xA0 # u '' A B '' @ [0x2003]))))
       = smart_str (PStr (0xA0 # u '' A B '' @ [0x2003]))
   \<and> smart_str (PStr (smart_str (PFloat (FIntegral 3)))) = smart_str (PFloat (FIntegral 3))"
proof -
  have t: "trimmed (u ''A B'')" by (simp add: trimmed_def isspace_def space_table_def u_def)
  have n: "\<forall>t. PFloat (FIntegral 3) \<noteq> PFloat (FOther t)" by simp
  have e: "smart_str (PStr (0xA0 # u '' A B '' @ [0x2003])) = u ''A B''"
    by (simp add: smart_str_def strip_def lstrip_def rstrip_def isspace_def space_table_def u_def)
  show ?thesis
    using smart_str_idempotent [of "u ''A B''" "PFloat (FIntegral 3)"]
      smart_str_idempotent [of "0xA0 # u '' A B '' @ [0x2003]" "PFloat (FIntegral 3)"] t n e
    by simp
qed

subsection \<open>Default labels\<close>

lemma str_split_nonempty: "str_split sep s \<noteq> []"
  by (induction s) (auto split: list.splits)

text \<open>
  The column name \<open>VAL_CUSTO\<close> is not empty, and its label is \<open>VAL\<close> all the same: the
  first segment of the name reads \<open>VAL\<close>.
\<close>

theorem val_label_counterexample:
  "u ''VAL_CUSTO'' \<noteq> [] \<and> abbrev_label (u ''VAL_CUSTO'') = u ''VAL''"
  by (simp add: abbrev_label_def replace_char_def strip_def lstrip_def rstrip_def isspace_def
      space_table_def upper_def upper_char_def u_def)

text \<open>
  Claim C10, as the code has it.  For a non-empty column name that begins with \<open>_\<close>,
  \<open>-\<close> or a space, the first segment is empty and \<open>abbrev_label\<close> returns the empty
  string, not \<open>VAL\<close>; the fallback \<open>VAL\<close> is what the empty name gets.  A non-empty name
  has the label \<open>VAL\<close> only when its first segment, stripped and in upper case, reads
  \<open>VAL\<close> itself.
\<close>

theorem abbrev_label_leading_separator:
  "abbrev_label [] = u ''VAL''
   \<and> (colname \<noteq> [] \<and> hd colname \<in> set (u ''_- '') \<longrightarrow>
        hd (str_split (ord (CHR ''_''))
              (replace_char (ord (CHR '' '')) (ord (CHR ''_'')) (replace_char (ord (CHR ''-'')) (ord (CHR ''_'')) colname))) = []
        \<and> abbrev_label colname = []
        \<and> abbrev_label colname \<noteq> u ''VAL'')
   \<and> (abbrev_label colname = u ''VAL'' \<longrightarrow>
        colname = []
        \<or> upper (strip (hd (str_split (ord (CHR ''_''))
              (replace_char (ord (CHR '' '')) (ord (CHR ''_'')) (replace_char (ord (CHR ''-'')) (ord (CHR ''_'')) colname))))) = u ''VAL'')"
proof (intro conjI impI)
  show "abbrev_label [] = u ''VAL''" by (simp add: abbrev_label_def)
next
  assume h: "colname \<noteq> [] \<and> hd colname \<in> set (u ''_- '')"
  then show "hd (str_split (ord (CHR ''_''))
              (replace_char (ord (CHR '' '')) (ord (CHR ''_'')) (replace_char (ord (CHR ''-'')) (ord (CHR ''_'')) colname))) = []"
    by (cases colname) (auto simp: replace_char_def u_def)
  then show "abbrev_label colname = []" and "abbrev_label colname \<noteq> u ''VAL''"
    using h by (simp_all add: abbrev_label_def strip_Nil upper_def u_def)
next
  let ?seg = "upper (strip (hd (str_split (ord (CHR ''_''))
              (replace_char (ord (CHR '' '')) (ord (CHR ''_'')) (replace_char (ord (CHR ''-'')) (ord (CHR ''_'')) colname)))))"
  assume v: "abbrev_label colname = u ''VAL''"
  show "colname = [] \<or> ?seg = u ''VAL''"
  proof (cases "colname = []")
    case True
    then show ?thesis by simp
  next
    case False
    show ?thesis
    proof (cases "length ?seg \<le> 4")
      case True
      with False v show ?thesis by (simp add: abbrev_label_def Let_def)
    next
      case long: False
      with False v have "take 4 ?seg = u ''VAL''" by (simp add: abbrev_label_def Let_def)
      then have "length (take 4 ?seg) = 3" by (simp add: u_def)
      with long show ?thesis by simp
    qed
  qed
qed

text \<open>The property at one name for each of the three separators.\<close>

theorem abbrev_label_leading_separator_witness:
  "u ''_OBS'' \<noteq> [] \<and> hd (u ''_OBS'') \<in> set (u ''_- '') \<and> abbrev_label (u ''_OBS'') = []
   \<and> abbrev_label (u ''-X'') = [] \<and> abbrev_label (u '' QTD'') = []
   \<and> abbrev_label [] = u ''VAL''"
proof -
  have h: "u ''_OBS'' \<noteq> [] \<and> hd (u ''_OBS'') \<in> set (u ''_- '')"
    "u ''-X'' \<noteq> [] \<and> hd (u ''-X'') \<in> set (u ''_- '')"
    "u '' QTD'' \<noteq> [] \<and> hd (u '' QTD'') \<in> set (u ''_- '')"
    by (simp_all add: u_def)
  show ?thesis
    using abbrev_label_leading_separator [of "u ''_OBS''"]
      abbrev_label_leading_separator [of "u ''-X''"]
      abbrev_label_leading_separator [of "u '' QTD''"] h
    by blast
qed

subsection \<open>The barcode check on short codes\<close>

lemma replicate_10: "replicate 10 x = [x, x, x, x, x, x, x, x, x, x]"
  by (simp add: numeral_eq_Suc)

lemma replicate_11: "replicate 11 x = [x, x, x, x, x, x, x, x, x, x, x]"
  by (simp add: numeral_eq_Suc)

lemma replicate_13: "replicate 13 x = [x, x, x, x, x, x, x, x, x, x, x, x, x]"
  by (simp add: numeral_eq_Suc)

lemma thirteen_zeros: "replicate 13 (48::nat) = u ''0000000000000''"
  by (simp add: replicate_13 u_def)

text \<open>
  Claim C2.  When the normalised value has at most 13 digit characters, the barcode check
  accepts it and returns its digits, padded on the left with \<open>0\<close> to exactly 13
  characters.  A value without any digit gives thirteen zeros, and a string of 13 digits is
  returned as it is.
\<close>

theorem ean13_pads_short_codes:
  "(length (filter isdigit (smart_str v)) \<le> 13 \<longrightarrow>
      ean13_fix_and_validate v =
        (True, replicate (13 - length (filter isdigit (smart_str v))) (ord (CHR ''0''))
                 @ filter isdigit (smart_str v))
      \<and> length (snd (ean13_fix_and_validate v)) = 13)
   \<and> (filter isdigit (smart_str v) = [] \<longrightarrow>
        ean13_fix_and_validate v = (True, u ''0000000000000''))
   \<and> (length s = 13 \<and> (\<forall>c\<in>set s. isdigit c) \<longrightarrow>
        ean13_fix_and_validate (PStr s) = (True, s))"
proof (intro conjI impI)
  assume "length (filter isdigit (smart_str v)) \<le> 13"
  then show "ean13_fix_and_validate v =
        (True, replicate (13 - length (filter isdigit (smart_str v))) (ord (CHR ''0''))
                 @ filter isdigit (smart_str v))"
    and "length (snd (ean13_fix_and_validate v)) = 13"
    by (simp_all add: ean13_fix_and_validate_def rjust_def Let_def)
next
  assume "filter isdigit (smart_str v) = []"
  then show "ean13_fix_and_validate v = (True, u ''0000000000000'')"
    by (simp add: ean13_fix_and_validate_def rjust_def Let_def thirteen_zeros)
next
  assume h: "length s = 13 \<and> (\<forall>c\<in>set s. isdigit c)"
  then have "strip s = s" by (simp add: strip_trimmed digits_trimmed)
  moreover from h have "filter isdigit s = s" by simp
  ultimately show "ean13_fix_and_validate (PStr s) = (True, s)"
    using h by (simp add: ean13_fix_and_validate_def rjust_def Let_def smart_str_def)
qed

text \<open>The property at a short code with other characters, at \<open>None\<close> and at a full code.\<close>

theorem ean13_pads_short_codes_witness:
  "length (filter isdigit (smart_str (PStr (u '' 78-9 '')))) \<le> 13
   \<and> ean13_fix_and_validate (PStr (u '' 78-9 '')) = (True, u ''0000000000789'')
   \<and> ean13_fix_and_validate (PStr (u ''12'' @ [0xB2])) = (True, u ''000000000012'' @ [0xB2])
   \<and> filter isdigit (smart_str PNone) = []
   \<and> ean13_fix_and_validate PNone = (True, u ''0000000000000'')
   \<and> ean13_fix_and_validate (PStr (u ''7891000315507'')) = (True, u ''7891000315507'')"
proof -
  have a: "filter isdigit (smart_str (PStr (u '' 78-9 ''))) = u ''789''"
    by (simp add: smart_str_def strip_def lstrip_def rstrip_def isspace_def space_table_def
        isdigit_def digit_table_def u_def)
  have b: "filter isdigit (smart_str (PStr (u ''12'' @ [0xB2]))) = u ''12'' @ [0xB2]"
    by (simp add: smart_str_def strip_def lstrip_def rstrip_def isspace_def space_table_def
        isdigit_def digit_table_def u_def)
  have c: "filter isdigit (smart_str PNone) = []"
    by (simp add: smart_str_def)
  have d: "length (u ''7891000315507'') = 13 \<and> (\<forall>c\<in>set (u ''7891000315507''). isdigit c)"
    by (simp add: isdigit_def digit_table_def u_def)
  note a' = a [unfolded u_def, simplified] and b' = b [unfolded u_def, simplified]
  have "ean13_fix_and_validate (PStr (u '' 78-9 '')) = (True, u ''0000000000789'')"
    using ean13_pads_short_codes [of "PStr (u '' 78-9 '')" "[]"]
    by (simp add: a' u_def replicate_10)
  moreover have "ean13_fix_and_validate (PStr (u ''12'' @ [0xB2])) =
      (True, u ''000000000012'' @ [0xB2])"
    using ean13_pads_short_codes [of "PStr (u ''12'' @ [0xB2])" "[]"]
    by (simp add: b' u_def replicate_10)
  moreover have "ean13_fix_and_validate PNone = (True, u ''0000000000000'')"
    using ean13_pads_short_codes [of PNone "[]"] c by blast
  moreover have "ean13_fix_and_validate (PStr (u ''7891000315507'')) = (True, u ''7891000315507'')"
    using ean13_pads_short_codes [of PNone "u ''7891000315507''"] d by blast
  ultimately show ?thesis
    by (simp add: a' c u_def)
qed

subsection \<open>The extra block\<close>

lemma extra_parts_char:
  "\<forall>(col, var) \<in> set cvs. var \<longrightarrow> label_vars a col \<noteq> None \<Longrightarrow>
     extra_parts a r cvs = Inr (map (col_fragment a r) (included_cols r cvs))"
proof (induction cvs)
  case Nil
  then show ?case by (simp add: included_cols_def)
next
  case (Cons cv cvs)
  obtain col var where cv: "cv = (col, var)" by (cases cv)
  from Cons.prems have rest: "\<forall>(col, var) \<in> set cvs. var \<longrightarrow> label_vars a col \<noteq> None"
    by simp
  note ih = Cons.IH [OF rest]
  show ?case
  proof (cases var)
    case False
    with ih cv show ?thesis by (simp add: included_cols_def)
  next
    case True
    with Cons.prems cv obtain lab where lab: "label_vars a col = Some lab" by auto
    with True ih cv show ?thesis
      by (simp add: included_cols_def col_fragment_def Let_def)
  qed
qed

lemma fragment_nonempty: "val \<noteq> [] \<Longrightarrow> fragment label sep val \<noteq> []"
  by (simp add: fragment_def)

lemma str_join_nonempty: "parts \<noteq> [] \<Longrightarrow> hd parts \<noteq> [] \<Longrightarrow> str_join sep parts \<noteq> []"
  by (cases "(sep, parts)" rule: str_join.cases) auto

lemma included_cols_values: "col \<in> set (included_cols r cvs) \<Longrightarrow> smart_str (row_get r col) \<noteq> []"
  by (auto simp: included_cols_def)

lemma included_cols_Nil:
  "included_cols r cvs = [] \<longleftrightarrow> (\<forall>(col, var) \<in> set cvs. var \<longrightarrow> smart_str (row_get r col) = [])"
  by (auto simp: included_cols_def filter_empty_conv)

lemma joined_fragments_nonempty:
  assumes "included_cols r cvs \<noteq> []"
  shows "str_join sep (map (col_fragment a r) (included_cols r cvs)) \<noteq> []"
proof -
  from assms have "hd (included_cols r cvs) \<in> set (included_cols r cvs)" by simp
  then have "smart_str (row_get r (hd (included_cols r cvs))) \<noteq> []"
    by (rule included_cols_values)
  then have "col_fragment a r (hd (included_cols r cvs)) \<noteq> []"
    by (simp add: col_fragment_def fragment_nonempty)
  with assms have "hd (map (col_fragment a r) (included_cols r cvs)) \<noteq> []"
    by (simp add: hd_map)
  with assms show ?thesis by (simp add: str_join_nonempty)
qed

lemma build_extra_block_char:
  assumes "labels_ok a"
  shows "build_extra_block a r =
           Inr (if included_cols r (col_vars a) = [] then []
                else opening_var a
                       @ str_join (pair_sep_var a) (map (col_fragment a r) (included_cols r (col_vars a)))
                       @ closing_var a)"
  using assms extra_parts_char [of "col_vars a" a r]
  by (simp add: build_extra_block_def labels_ok_def)

lemma block_shape:
  assumes "build_extra_block a r = Inr extra" and "extra \<noteq> []"
  shows "\<exists>m. extra = opening_var a @ m @ closing_var a"
  using assms by (auto simp: build_extra_block_def split: sum.splits if_splits)

lemma labels_ok_default: "labels_ok default_app"
  by (simp add: labels_ok_def default_app_def)

lemma labels_ok_scenario: "labels_ok scenario_app"
  by (simp add: labels_ok_def scenario_app_def default_app_def)

lemma scenario_cells:
  "smart_str (row_get scenario_row (u ''COD_INTERNO'')) = u ''123''"
  "smart_str (row_get scenario_row (u ''COD_EAN'')) = u ''789''"
  "smart_str (row_get scenario_row (u ''DES_PRODUTO'')) = u ''ADSTRIGENTE 387 FACE BEAUTIFUL''"
  "smart_str (row_get scenario_row (u ''DEPARTAMENTO'')) = u ''GERAL''"
  "smart_str (row_get scenario_row (u ''QTD_ESTOQUE_ATUAL'')) = u ''3''"
  by (simp_all add: scenario_row_def row_get_def smart_str_def strip_def lstrip_def rstrip_def
      isspace_def space_table_def u_def str_int_def str_nat.simps digit_char_def)

lemmas scenario_cells_n = scenario_cells [unfolded u_def, simplified]

lemma scenario_block:
  "build_extra_block scenario_app scenario_row = Inr (u ''(DEP: GERAL / QTD: 3)'')"
  by (simp add: build_extra_block_def scenario_app_def default_app_def scenario_cells_n fragment_def
      strip_def lstrip_def rstrip_def isspace_def space_table_def u_def)

lemma dep_cells:
  "smart_str (row_get trailing_row (u ''COD_INTERNO'')) = u ''1''"
  "smart_str (row_get trailing_row (u ''COD_EAN'')) = u ''2''"
  "smart_str (row_get trailing_row (u ''DES_PRODUTO'')) = []"
  "smart_str (row_get trailing_row (u ''DEPARTAMENTO'')) = u ''GERAL''"
  by (simp_all add: trailing_row_def row_get_def smart_str_def strip_def lstrip_def rstrip_def
      isspace_def space_table_def u_def)

lemmas dep_cells_n = dep_cells [unfolded u_def, simplified]

text \<open>
  Claim C5.  When every ticked column has a label entry, \<open>_build_extra_block\<close> returns
  the empty string exactly when no ticked column has a non-empty normalised value, so no
  empty pair of brackets is produced; otherwise it returns the pairs, joined with the pair
  separator, between the opening and the closing string.
\<close>

theorem extra_block_empty_iff:
  assumes "labels_ok a"
  shows "(build_extra_block a r = Inr []
            \<longleftrightarrow> (\<forall>(col, var) \<in> set (col_vars a). var \<longrightarrow> smart_str (row_get r col) = []))
         \<and> build_extra_block a r =
             Inr (if included_cols r (col_vars a) = [] then []
                  else opening_var a
                         @ str_join (pair_sep_var a)
                             (map (col_fragment a r) (included_cols r (col_vars a)))
                         @ closing_var a)"
  using build_extra_block_char [OF assms, of r]
    joined_fragments_nonempty [of r "col_vars a" "pair_sep_var a" a]
    included_cols_Nil [of r "col_vars a"]
  by auto

text \<open>The property at scenario A and at a row whose two ticked cells are blank and NaN.\<close>

theorem extra_block_empty_iff_witness:
  "labels_ok scenario_app
   \<and> build_extra_block scenario_app scenario_row = Inr (u ''(DEP: GERAL / QTD: 3)'')
   \<and> build_extra_block scenario_app empty_row = Inr []"
proof -
  have i: "included_cols scenario_row (col_vars scenario_app) = [u ''DEPARTAMENTO'', u ''QTD_ESTOQUE_ATUAL'']"
    by (simp add: included_cols_def scenario_app_def default_app_def scenario_cells_n u_def)
  have f: "col_fragment scenario_app scenario_row (u ''DEPARTAMENTO'') = u ''DEP: GERAL''"
    "col_fragment scenario_app scenario_row (u ''QTD_ESTOQUE_ATUAL'') = u ''QTD: 3''"
    by (simp_all add: col_fragment_def fragment_def scenario_cells_n scenario_app_def default_app_def
        strip_def lstrip_def rstrip_def isspace_def space_table_def u_def)
  have o: "opening_var scenario_app = u ''(''" "closing_var scenario_app = u '')''"
    "pair_sep_var scenario_app = u '' / ''"
    by (simp_all add: scenario_app_def default_app_def)
  have e: "\<forall>(col, var) \<in> set (col_vars scenario_app). var \<longrightarrow> smart_str (row_get empty_row col) = []"
    by (simp add: scenario_app_def default_app_def empty_row_def row_get_def smart_str_def
        strip_def lstrip_def rstrip_def isspace_def space_table_def u_def)
  show ?thesis
    using extra_block_empty_iff [OF labels_ok_scenario, of scenario_row]
      extra_block_empty_iff [OF labels_ok_scenario, of empty_row] labels_ok_scenario e
    by (simp add: i f [unfolded u_def, simplified] o u_def)
qed

lemma extra_parts_blank_label:
  assumes "label_vars a col = Some lab" and "\<forall>c\<in>set lab. isspace c"
  shows "extra_parts (a\<lparr>label_vars := (label_vars a)(col \<mapsto> [])\<rparr>) r cvs = extra_parts a r cvs"
proof (induction cvs)
  case Nil
  show ?case by simp
next
  case (Cons cv cvs)
  obtain c v where cv: "cv = (c, v)" by (cases cv)
  from assms have blank: "strip lab = strip []" by (simp add: strip_all_space strip_Nil)
  show ?case
  proof (cases "c = col")
    case True
    with Cons.IH cv assms(1) blank show ?thesis
      by (simp add: Let_def split: sum.splits)
  next
    case False
    with Cons.IH cv show ?thesis
      by (simp add: Let_def split: sum.splits option.splits)
  qed
qed

text \<open>
  Claim C8.  A label that consists of white space only is stripped to the empty label
  before use: the block is the one built with the empty label in its place, the pair of
  that column is its bare normalised value, and when it is the only ticked column the
  block is that value between the opening and the closing string, without the label
  separator.
\<close>

theorem blank_label_is_empty_label:
  assumes "label_vars a col = Some lab" and "\<forall>c\<in>set lab. isspace c"
  shows "build_extra_block (a\<lparr>label_vars := (label_vars a)(col \<mapsto> [])\<rparr>) r = build_extra_block a r
         \<and> col_fragment a r col = smart_str (row_get r col)
         \<and> build_extra_block (a\<lparr>col_vars := [(col, True)]\<rparr>) r =
             Inr (if smart_str (row_get r col) \<noteq> []
                  then opening_var a @ smart_str (row_get r col) @ closing_var a else [])"
proof (intro conjI)
  show "build_extra_block (a\<lparr>label_vars := (label_vars a)(col \<mapsto> [])\<rparr>) r = build_extra_block a r"
    using extra_parts_blank_label [OF assms, of r "col_vars a"]
    by (simp add: build_extra_block_def split: sum.splits)
next
  from assms show "col_fragment a r col = smart_str (row_get r col)"
    by (simp add: col_fragment_def fragment_def strip_all_space)
next
  from assms show "build_extra_block (a\<lparr>col_vars := [(col, True)]\<rparr>) r =
             Inr (if smart_str (row_get r col) \<noteq> []
                  then opening_var a @ smart_str (row_get r col) @ closing_var a else [])"
    by (simp add: build_extra_block_def fragment_def strip_all_space Let_def)
qed

text \<open>The property at a label of a no-break space and a space.\<close>

theorem blank_label_is_empty_label_witness:
  "label_vars blank_label_app (u ''DEPARTAMENTO'') = Some [0xA0, 0x20]
   \<and> build_extra_block blank_label_app trailing_row = Inr (u ''(GERAL)'')"
proof -
  have l: "label_vars blank_label_app (u ''DEPARTAMENTO'') = Some [0xA0, 0x20]"
    by (simp add: blank_label_app_def)
  have s: "\<forall>c\<in>set [0xA0, 0x20]. isspace c" by (simp add: isspace_def space_table_def)
  have a: "blank_label_app\<lparr>col_vars := [(u ''DEPARTAMENTO'', True)]\<rparr> = blank_label_app"
    by (simp add: blank_label_app_def default_app_def)
  have o: "opening_var blank_label_app = u ''(''" "closing_var blank_label_app = u '')''"
    by (simp_all add: blank_label_app_def default_app_def)
  show ?thesis
    using blank_label_is_empty_label [OF l s, of trailing_row] l
    by (simp add: a [unfolded u_def, simplified] o dep_cells_n u_def)
qed

subsection \<open>Lines\<close>

lemma build_line_accepted:
  assumes "build_extra_block a r = Inr extra"
    and "validate_ean13 a \<longrightarrow> length (filter isdigit (smart_str (row_get r (u ''COD_EAN'')))) \<le> 13"
  shows "build_line a r =
           Inr (Some (smart_str (row_get r (u ''COD_INTERNO'')) @ u ''|''
                      @ (if validate_ean13 a
                         then rjust 13 (ord (CHR ''0'')) (filter isdigit (smart_str (row_get r (u ''COD_EAN''))))
                         else smart_str (row_get r (u ''COD_EAN'')))
                      @ u ''|'' @ desc_final (smart_str (row_get r (BASE_COL a))) extra),
                a)"
  using assms
  by (auto simp: build_line_def finish_line_def ean13_fix_and_validate_def Let_def)

lemma extra_parts_prefix: "extra_parts (a\<lparr>MANDATORY_PREFIX := p\<rparr>) r cvs = extra_parts a r cvs"
  by (induction cvs) (auto simp: Let_def split: sum.splits option.splits)

lemma build_extra_block_prefix:
  "build_extra_block (a\<lparr>MANDATORY_PREFIX := p\<rparr>) r = build_extra_block a r"
  by (simp add: build_extra_block_def extra_parts_prefix split: sum.splits)

text \<open>
  Claim C1.  For the row of scenario A, with the columns \<open>DEPARTAMENTO\<close> (label
  \<open>DEP\<close>) and \<open>QTD_ESTOQUE_ATUAL\<close> (label \<open>QTD\<close>) ticked, the default format and the
  barcode check switched off, \<open>_build_line\<close> returns the line below; the float \<open>3.0\<close>
  is rendered as \<open>3\<close>.
\<close>

theorem scenario_A_line:
  "build_line scenario_app scenario_row =
     Inr (Some (u ''123|789|ADSTRIGENTE 387 FACE BEAUTIFUL (DEP: GERAL / QTD: 3)''), scenario_app)"
proof -
  have v: "\<not> validate_ean13 scenario_app" and b: "BASE_COL scenario_app = u ''DES_PRODUTO''"
    by (simp_all add: scenario_app_def default_app_def)
  have d: "desc_final (u ''ADSTRIGENTE 387 FACE BEAUTIFUL'') (u ''(DEP: GERAL / QTD: 3)'')
             = u ''ADSTRIGENTE 387 FACE BEAUTIFUL (DEP: GERAL / QTD: 3)''"
    by (simp add: desc_final_def strip_def lstrip_def rstrip_def isspace_def space_table_def u_def)
  show ?thesis
    by (simp add: build_line_def finish_line_def v b scenario_cells_n scenario_block
        d [unfolded u_def, simplified] u_def)
qed

text \<open>
  With \<open>MANDATORY_PREFIX\<close> set to the single column \<open>COD_INTERNO\<close>, the line still has
  both prefix fields, where the configured list gives one.
\<close>

theorem configured_prefix_counterexample:
  "build_line prefix_app prefix_row = Inr (Some (u ''1|2|X''), prefix_app)
   \<and> spec_prefix_line prefix_app prefix_row
        (desc_final (smart_str (row_get prefix_row (BASE_COL prefix_app))) []) = u ''1|X''
   \<and> build_line prefix_app prefix_row \<noteq>
        Inr (Some (spec_prefix_line prefix_app prefix_row
                     (desc_final (smart_str (row_get prefix_row (BASE_COL prefix_app))) [])),
             prefix_app)"
  by (simp add: prefix_app_def prefix_row_def spec_prefix_line_def spec_prefix_field_def eval_defs)

text \<open>
  Claim C4, as the code has it.  For a row that is not rejected, the line is the normalised
  \<open>COD_INTERNO\<close>, then \<open>|\<close>, the barcode (the normalised \<open>COD_EAN\<close>, or its 13-digit
  form when the check is on), then \<open>|\<close> and the final description, whatever list
  \<open>MANDATORY_PREFIX\<close> holds; for the default list and the check switched off this is the
  configured prefix joined with \<open>|\<close>.
\<close>

theorem line_prefix_is_fixed:
  assumes "labels_ok a"
    and "validate_ean13 a \<longrightarrow> length (filter isdigit (smart_str (row_get r (u ''COD_EAN'')))) \<le> 13"
  shows "\<exists>extra. build_extra_block a r = Inr extra
           \<and> build_line (a\<lparr>MANDATORY_PREFIX := p\<rparr>) r =
               Inr (Some (smart_str (row_get r (u ''COD_INTERNO'')) @ u ''|''
                          @ (if validate_ean13 a
                             then rjust 13 (ord (CHR ''0''))
                                    (filter isdigit (smart_str (row_get r (u ''COD_EAN''))))
                             else smart_str (row_get r (u ''COD_EAN'')))
                          @ u ''|'' @ desc_final (smart_str (row_get r (BASE_COL a))) extra),
                    a\<lparr>MANDATORY_PREFIX := p\<rparr>)
           \<and> (p = [u ''COD_INTERNO'', u ''COD_EAN''] \<longrightarrow>
                 build_line (a\<lparr>MANDATORY_PREFIX := p\<rparr>) r =
                   Inr (Some (spec_prefix_line (a\<lparr>MANDATORY_PREFIX := p\<rparr>) r
                                (desc_final (smart_str (row_get r (BASE_COL a))) extra)),
                        a\<lparr>MANDATORY_PREFIX := p\<rparr>))"
proof -
  let ?ean = "if validate_ean13 a
              then rjust 13 (ord (CHR ''0'')) (filter isdigit (smart_str (row_get r (u ''COD_EAN''))))
              else smart_str (row_get r (u ''COD_EAN''))"
  from assms(1) obtain extra where x: "build_extra_block a r = Inr extra"
    using build_extra_block_char by blast
  let ?desc = "desc_final (smart_str (row_get r (BASE_COL a))) extra"
  let ?line = "smart_str (row_get r (u ''COD_INTERNO'')) @ u ''|'' @ ?ean @ u ''|'' @ ?desc"
  from x have x': "build_extra_block (a\<lparr>MANDATORY_PREFIX := p\<rparr>) r = Inr extra"
    by (simp add: build_extra_block_prefix)
  from assms(2) have v: "validate_ean13 (a\<lparr>MANDATORY_PREFIX := p\<rparr>) \<longrightarrow>
      length (filter isdigit (smart_str (row_get r (u ''COD_EAN'')))) \<le> 13"
    by simp
  have l: "build_line (a\<lparr>MANDATORY_PREFIX := p\<rparr>) r = Inr (Some ?line, a\<lparr>MANDATORY_PREFIX := p\<rparr>)"
    using build_line_accepted [OF x' v] by simp
  have ne: "u ''COD_INTERNO'' \<noteq> u ''COD_EAN''"
    by (simp add: u_def)
  have f: "spec_prefix_field (a\<lparr>MANDATORY_PREFIX := p\<rparr>) r (u ''COD_INTERNO'')
             = smart_str (row_get r (u ''COD_INTERNO''))"
    using ne by (simp add: spec_prefix_field_def)
  have g: "spec_prefix_field (a\<lparr>MANDATORY_PREFIX := p\<rparr>) r (u ''COD_EAN'') = ?ean"
    using assms(2) by (auto simp: spec_prefix_field_def ean13_fix_and_validate_def Let_def)
  have s: "spec_prefix_line (a\<lparr>MANDATORY_PREFIX := p\<rparr>) r ?desc = ?line"
    if "p = [u ''COD_INTERNO'', u ''COD_EAN'']"
  proof -
    have "MANDATORY_PREFIX (a\<lparr>MANDATORY_PREFIX := p\<rparr>) = [u ''COD_INTERNO'', u ''COD_EAN'']"
      using that by simp
    then have "spec_prefix_line (a\<lparr>MANDATORY_PREFIX := p\<rparr>) r ?desc =
        spec_prefix_field (a\<lparr>MANDATORY_PREFIX := p\<rparr>) r (u ''COD_INTERNO'') @ u ''|''
          @ spec_prefix_field (a\<lparr>MANDATORY_PREFIX := p\<rparr>) r (u ''COD_EAN'') @ u ''|'' @ ?desc"
      unfolding spec_prefix_line_def by simp
    then show ?thesis unfolding f g .
  qed
  show ?thesis
  proof (intro exI [of _ extra] conjI impI)
    show "build_extra_block a r = Inr extra" by (rule x)
    show "build_line (a\<lparr>MANDATORY_PREFIX := p\<rparr>) r = Inr (Some ?line, a\<lparr>MANDATORY_PREFIX := p\<rparr>)"
      by (rule l)
    assume "p = [u ''COD_INTERNO'', u ''COD_EAN'']"
    then have "spec_prefix_line (a\<lparr>MANDATORY_PREFIX := p\<rparr>) r ?desc = ?line" by (rule s)
    then show "build_line (a\<lparr>MANDATORY_PREFIX := p\<rparr>) r =
        Inr (Some (spec_prefix_line (a\<lparr>MANDATORY_PREFIX := p\<rparr>) r ?desc), a\<lparr>MANDATORY_PREFIX := p\<rparr>)"
      using l by (simp only:)
  qed
qed

text \<open>The property at the prefix list of one column and at the default list.\<close>

theorem line_prefix_is_fixed_witness:
  "labels_ok default_app
   \<and> build_line (default_app\<lparr>MANDATORY_PREFIX := [u ''COD_INTERNO'']\<rparr>) prefix_row =
       Inr (Some (u ''1|2|X''), default_app\<lparr>MANDATORY_PREFIX := [u ''COD_INTERNO'']\<rparr>)
   \<and> build_line (default_app\<lparr>MANDATORY_PREFIX := [u ''COD_INTERNO'', u ''COD_EAN'']\<rparr>) prefix_row =
       Inr (Some (u ''1|2|X''), default_app\<lparr>MANDATORY_PREFIX := [u ''COD_INTERNO'', u ''COD_EAN'']\<rparr>)"
proof -
  have v: "validate_ean13 default_app \<longrightarrow>
      length (filter isdigit (smart_str (row_get prefix_row (u ''COD_EAN'')))) \<le> 13"
    by (simp add: default_app_def)
  have x: "build_extra_block default_app prefix_row = Inr []"
    by (simp add: build_extra_block_def default_app_def)
  have c: "smart_str (row_get prefix_row (u ''COD_INTERNO'')) = u ''1''"
    "smart_str (row_get prefix_row (u ''COD_EAN'')) = u ''2''"
    "smart_str (row_get prefix_row (BASE_COL default_app)) = u ''X''"
    "\<not> validate_ean13 default_app"
    by (simp_all add: prefix_row_def default_app_def row_get_def smart_str_def strip_def
        lstrip_def rstrip_def isspace_def space_table_def u_def)
  show ?thesis
    using line_prefix_is_fixed [OF labels_ok_default v, of "[u ''COD_INTERNO'']"]
      line_prefix_is_fixed [OF labels_ok_default v, of "[u ''COD_INTERNO'', u ''COD_EAN'']"]
      labels_ok_default
    by (auto simp: x c [unfolded u_def, simplified] desc_final_def u_def)
qed

text \<open>
  With a closing string that ends in a space and no base text, the description of the line
  is not the block: the space at the end of the block is gone.
\<close>

theorem stripped_block_counterexample:
  "smart_str (row_get trailing_row (BASE_COL trailing_app)) = []
   \<and> build_extra_block trailing_app trailing_row = Inr (u ''(DEP: GERAL) '')
   \<and> build_line trailing_app trailing_row = Inr (Some (u ''1|2|(DEP: GERAL)''), trailing_app)
   \<and> build_line trailing_app trailing_row \<noteq>
        Inr (Some (u ''1|2|'' @ u ''(DEP: GERAL) ''), trailing_app)"
  by (simp add: trailing_app_def trailing_row_def eval_defs)

text \<open>
  Claim C9, as the code has it.  When the base text is empty and the block is not, the
  final description is the block stripped of white space at both ends, so it never begins
  with a space; it is the block itself whenever the block has no white space at either end,
  as with the default opening and closing strings.
\<close>

theorem empty_base_description:
  assumes "smart_str (row_get r (BASE_COL a)) = []"
    and "build_extra_block a r = Inr extra"
    and "extra \<noteq> []"
    and "validate_ean13 a \<longrightarrow> length (filter isdigit (smart_str (row_get r (u ''COD_EAN'')))) \<le> 13"
  shows "build_line a r =
           Inr (Some (smart_str (row_get r (u ''COD_INTERNO'')) @ u ''|''
                      @ (if validate_ean13 a
                         then rjust 13 (ord (CHR ''0'')) (filter isdigit (smart_str (row_get r (u ''COD_EAN''))))
                         else smart_str (row_get r (u ''COD_EAN'')))
                      @ u ''|'' @ strip extra),
                a)
         \<and> trimmed (strip extra)
         \<and> (trimmed extra \<longrightarrow> strip extra = extra)
         \<and> (opening_var a = u ''('' \<and> closing_var a = u '')'' \<longrightarrow> strip extra = extra)"
proof -
  have sp: "isspace 32" by (simp add: isspace_def space_table_def)
  from assms(1,3) have d: "desc_final (smart_str (row_get r (BASE_COL a))) extra = strip extra"
    by (simp add: desc_final_def strip_space_cons [OF sp] u_def)
  have "opening_var a = u ''('' \<and> closing_var a = u '')'' \<longrightarrow> trimmed extra"
    using block_shape [OF assms(2,3)] bracketed_trimmed by auto
  then show ?thesis
    using build_line_accepted [OF assms(2,4)] d strip_is_trimmed [of extra] strip_trimmed [of extra]
    by auto
qed

text \<open>The property at a row without base text, under the default format.\<close>

theorem empty_base_description_witness:
  "smart_str (row_get trailing_row (BASE_COL dep_app)) = []
   \<and> build_extra_block dep_app trailing_row = Inr (u ''(DEP: GERAL)'')
   \<and> build_line dep_app trailing_row = Inr (Some (u ''1|2|(DEP: GERAL)''), dep_app)"
proof -
  have b: "smart_str (row_get trailing_row (BASE_COL dep_app)) = []"
    by (simp add: dep_app_def default_app_def dep_cells)
  have x: "build_extra_block dep_app trailing_row = Inr (u ''(DEP: GERAL)'')"
    by (simp add: build_extra_block_def dep_app_def default_app_def dep_cells_n fragment_def
        strip_def lstrip_def rstrip_def isspace_def space_table_def u_def)
  have n: "u ''(DEP: GERAL)'' \<noteq> []" by (simp add: u_def)
  have v: "validate_ean13 dep_app \<longrightarrow>
      length (filter isdigit (smart_str (row_get trailing_row (u ''COD_EAN'')))) \<le> 13"
    by (simp add: dep_app_def default_app_def)
  have o: "opening_var dep_app = u ''(''" "closing_var dep_app = u '')''" "\<not> validate_ean13 dep_app"
    by (simp_all add: dep_app_def default_app_def)
  note t = empty_base_description [OF b x n v]
  from t o have s: "strip (u ''(DEP: GERAL)'') = u ''(DEP: GERAL)''"
    by blast
  have "build_line dep_app trailing_row = Inr (Some (u ''1|2|(DEP: GERAL)''), dep_app)"
    using t unfolding s by (simp add: o dep_cells_n u_def)
  with b x show ?thesis by simp
qed

subsection \<open>Rejected rows\<close>

lemma long_row_cells:
  "smart_str (row_get long_row (u ''COD_INTERNO'')) = u ''7''"
  "smart_str (row_get long_row (u ''COD_EAN'')) = u ''12345678901234''"
  "smart_str (row_get long_row (u ''DES_PRODUTO'')) = u ''X''"
  by (simp_all add: long_row_def row_get_def smart_str_def strip_def lstrip_def rstrip_def
      isspace_def space_table_def u_def)

lemmas long_row_cells_n = long_row_cells [unfolded u_def, simplified]

lemma short_row_line:
  "build_line (reject_app\<lparr>ean13_oversized := [long_rejected]\<rparr>) short_row =
     Inr (Some (u ''8|0000000000042|Y''), reject_app\<lparr>ean13_oversized := [long_rejected]\<rparr>)"
  by (simp add: reject_app_def short_row_def eval_defs ean13_fix_and_validate_def rjust_def
      replicate_11)

lemma long_row_line:
  "build_line reject_app long_row = Inr (None, reject_app\<lparr>ean13_oversized := [long_rejected]\<rparr>)"
proof -
  have e: "ean13_fix_and_validate (row_get long_row (u ''COD_EAN'')) = (False, [])"
    by (simp add: ean13_fix_and_validate_def long_row_cells_n isdigit_def digit_table_def u_def)
  show ?thesis
    by (simp add: build_line_def e [unfolded u_def, simplified] long_row_cells_n isdigit_def
        digit_table_def u_def long_rejected_def reject_app_def default_app_def)
qed

lemma long_then_short:
  "build_lines reject_app [long_row, short_row] =
     Inr ([u ''8|0000000000042|Y''], reject_app\<lparr>ean13_oversized := [long_rejected]\<rparr>)"
  by (simp add: long_row_line short_row_line)

text \<open>
  Claim C3.  With the barcode check on, a row whose normalised barcode has more than 13
  digits is rejected: the check refuses it with an empty code, \<open>_build_line\<close> returns
  \<open>None\<close> and appends exactly one record, holding the normalised internal code, the
  normalised barcode, the base text and the number of digits, and the loop goes on with
  the following rows, to which the row contributes no line.
\<close>

theorem oversized_barcode_rejected:
  assumes "validate_ean13 a"
    and "length (filter isdigit (smart_str (row_get r (u ''COD_EAN'')))) > 13"
  shows "ean13_fix_and_validate (row_get r (u ''COD_EAN'')) = (False, [])
         \<and> build_line a r =
             Inr (None,
                  a\<lparr>ean13_oversized := ean13_oversized a @
                     [\<lparr>COD_IN = smart_str (row_get r (u ''COD_INTERNO'')),
                       COD_EAN = smart_str (row_get r (u ''COD_EAN'')),
                       DES_PRODUTO = smart_str (row_get r (BASE_COL a)),
                       LEN = length (filter isdigit (smart_str (row_get r (u ''COD_EAN''))))\<rparr>]\<rparr>)
         \<and> build_lines a (r # rs) =
             build_lines
               (a\<lparr>ean13_oversized := ean13_oversized a @
                     [\<lparr>COD_IN = smart_str (row_get r (u ''COD_INTERNO'')),
                       COD_EAN = smart_str (row_get r (u ''COD_EAN'')),
                       DES_PRODUTO = smart_str (row_get r (BASE_COL a)),
                       LEN = length (filter isdigit (smart_str (row_get r (u ''COD_EAN''))))\<rparr>]\<rparr>) rs"
proof -
  from assms(2) have e: "ean13_fix_and_validate (row_get r (u ''COD_EAN'')) = (False, [])"
    by (simp add: ean13_fix_and_validate_def Let_def)
  with assms(1) have b: "build_line a r =
             Inr (None,
                  a\<lparr>ean13_oversized := ean13_oversized a @
                     [\<lparr>COD_IN = smart_str (row_get r (u ''COD_INTERNO'')),
                       COD_EAN = smart_str (row_get r (u ''COD_EAN'')),
                       DES_PRODUTO = smart_str (row_get r (BASE_COL a)),
                       LEN = length (filter isdigit (smart_str (row_get r (u ''COD_EAN''))))\<rparr>]\<rparr>)"
    by (simp add: build_line_def Let_def)
  have "build_lines a (r # rs) =
             build_lines
               (a\<lparr>ean13_oversized := ean13_oversized a @
                     [\<lparr>COD_IN = smart_str (row_get r (u ''COD_INTERNO'')),
                       COD_EAN = smart_str (row_get r (u ''COD_EAN'')),
                       DES_PRODUTO = smart_str (row_get r (BASE_COL a)),
                       LEN = length (filter isdigit (smart_str (row_get r (u ''COD_EAN''))))\<rparr>]\<rparr>) rs"
    by (simp add: b split: sum.splits prod.splits)
  with e b show ?thesis by simp
qed

text \<open>The property at a barcode of 14 digits, followed by a row that is accepted.\<close>

theorem oversized_barcode_rejected_witness:
  "validate_ean13 reject_app
   \<and> length (filter isdigit (smart_str (row_get long_row (u ''COD_EAN'')))) > 13
   \<and> ean13_fix_and_validate (row_get long_row (u ''COD_EAN'')) = (False, [])
   \<and> build_line reject_app long_row = Inr (None, reject_app\<lparr>ean13_oversized := [long_rejected]\<rparr>)
   \<and> build_lines reject_app [long_row, short_row] =
       Inr ([u ''8|0000000000042|Y''], reject_app\<lparr>ean13_oversized := [long_rejected]\<rparr>)"
proof -
  have v: "validate_ean13 reject_app"
    by (simp add: reject_app_def default_app_def)
  have l: "length (filter isdigit (smart_str (row_get long_row (u ''COD_EAN'')))) = 14"
    by (simp add: long_row_cells_n isdigit_def digit_table_def u_def)
  then have n: "length (filter isdigit (smart_str (row_get long_row (u ''COD_EAN'')))) > 13"
    by simp
  have rec: "\<lparr>COD_IN = smart_str (row_get long_row (u ''COD_INTERNO'')),
              COD_EAN = smart_str (row_get long_row (u ''COD_EAN'')),
              DES_PRODUTO = smart_str (row_get long_row (BASE_COL reject_app)),
              LEN = length (filter isdigit (smart_str (row_get long_row (u ''COD_EAN''))))\<rparr>
             = long_rejected"
    unfolding l by (simp add: long_row_cells long_rejected_def reject_app_def default_app_def)
  have o: "ean13_oversized reject_app @ [long_rejected] = [long_rejected]"
    by (simp add: reject_app_def default_app_def)
  note t = oversized_barcode_rejected [OF v n, of "[short_row]", unfolded rec o]
  have rest: "build_lines (reject_app\<lparr>ean13_oversized := [long_rejected]\<rparr>) [short_row] =
       Inr ([u ''8|0000000000042|Y''], reject_app\<lparr>ean13_oversized := [long_rejected]\<rparr>)"
    by (simp add: short_row_line)
  from t v n rest show ?thesis by simp
qed

subsection \<open>The log\<close>

lemma write_ean13_log_fst: "fst (write_ean13_log a ctx now w) = None"
  by (simp add: write_ean13_log_def split: prod.splits option.splits)

lemma write_ean13_log_result: "\<exists>w'. write_ean13_log a ctx now w = (None, w')"
  using write_ean13_log_fst [of a ctx now w] by (cases "write_ean13_log a ctx now w") simp

lemma extra_parts_no_oserror: "extra_parts a r cvs \<noteq> Inl OSError"
  by (induction cvs) (auto simp: Let_def split: sum.splits option.splits if_splits)

lemma build_line_no_oserror: "build_line a r \<noteq> Inl OSError"
  using extra_parts_no_oserror [of a r "col_vars a"]
  by (auto simp: build_line_def finish_line_def build_extra_block_def Let_def
      split: sum.splits prod.splits)

lemma build_lines_no_oserror: "build_lines a rs \<noteq> Inl OSError"
proof (induction rs arbitrary: a)
  case Nil
  show ?case by simp
next
  case (Cons r rs)
  show ?case
    using build_line_no_oserror [of a r] Cons.IH
    by (auto split: sum.splits prod.splits)
qed

lemma on_preview_outcome:
  "map_sum id (\<lambda>(lines, a', w'). (lines, a')) (on_preview a df now w) =
     (case df of
        None \<Rightarrow> Inr (None, a)
      | Some d \<Rightarrow>
          if BASE_COL a \<notin> set (df_columns d) then Inr (None, a)
          else (case build_lines (a\<lparr>ean13_oversized := []\<rparr>) (take 10 (df_rows d)) of
                  Inl e \<Rightarrow> Inl e
                | Inr (lines, a') \<Rightarrow> Inr (Some lines, a')))"
proof (cases df)
  case None
  then show ?thesis by (simp add: on_preview_def)
next
  case (Some d)
  show ?thesis
  proof (cases "build_lines (a\<lparr>ean13_oversized := []\<rparr>) (take 10 (df_rows d))")
    case (Inl e)
    with Some show ?thesis by (simp add: on_preview_def)
  next
    case (Inr res)
    obtain lines a' where res: "res = (lines, a')" by (cases res)
    obtain w' where "write_ean13_log a' preview_context now w = (None, w')"
      using write_ean13_log_result by blast
    with Some Inr res show ?thesis by (simp add: on_preview_def)
  qed
qed

lemma reject_app_reset: "reject_app\<lparr>ean13_oversized := []\<rparr> = reject_app"
  by (simp add: reject_app_def default_app_def)

text \<open>
  Claim C7.  No exception leaves \<open>_write_ean13_log\<close>, and none of the log reaches the
  caller of \<open>on_preview\<close>; the lines and the rejected records that \<open>on_preview\<close>
  returns are the same in every state of the outside world, so a failed write changes
  neither.  When the file cannot be opened, the body of the \<open>try\<close> raises and the
  function returns normally, leaving the world as it was.
\<close>

theorem log_failure_absorbed:
  "fst (write_ean13_log a ctx now w) = None
   \<and> on_preview a df now w \<noteq> Inl OSError
   \<and> map_sum id (\<lambda>(lines, a', w'). (lines, a')) (on_preview a df now w)
       = map_sum id (\<lambda>(lines, a', w'). (lines, a')) (on_preview a df now w0)
   \<and> (ean13_oversized a \<noteq> [] \<and> io_budget w = Some 0 \<longrightarrow>
        write_ean13_log_body a ctx now w = (Some OSError, w)
        \<and> write_ean13_log a ctx now w = (None, w))"
proof (intro conjI impI)
  show "fst (write_ean13_log a ctx now w) = None"
    by (rule write_ean13_log_fst)
next
  have "map_sum id (\<lambda>(lines, a', w'). (lines, a')) (on_preview a df now w) \<noteq> Inl OSError"
    using build_lines_no_oserror
    by (auto simp: on_preview_outcome split: option.splits sum.splits)
  then show "on_preview a df now w \<noteq> Inl OSError"
    by auto
next
  show "map_sum id (\<lambda>(lines, a', w'). (lines, a')) (on_preview a df now w)
       = map_sum id (\<lambda>(lines, a', w'). (lines, a')) (on_preview a df now w0)"
    by (simp only: on_preview_outcome)
next
  assume h: "ean13_oversized a \<noteq> [] \<and> io_budget w = Some 0"
  then show b: "write_ean13_log_body a ctx now w = (Some OSError, w)"
    by (simp add: write_ean13_log_body_def)
  with h show "write_ean13_log a ctx now w = (None, w)"
    by (simp add: write_ean13_log_def)
qed

text \<open>The property at a preview with one rejected row and a log file that cannot be opened.\<close>

theorem log_failure_absorbed_witness:
  "ean13_oversized (reject_app\<lparr>ean13_oversized := [long_rejected]\<rparr>) \<noteq> []
   \<and> io_budget broken_io = Some 0
   \<and> write_ean13_log_body (reject_app\<lparr>ean13_oversized := [long_rejected]\<rparr>)
        preview_context (u ''2024-01-01 00:00:00'') broken_io = (Some OSError, broken_io)
   \<and> write_ean13_log (reject_app\<lparr>ean13_oversized := [long_rejected]\<rparr>)
        preview_context (u ''2024-01-01 00:00:00'') broken_io = (None, broken_io)
   \<and> on_preview reject_app (Some preview_frame) (u ''2024-01-01 00:00:00'') broken_io =
       Inr (Some [u ''8|0000000000042|Y''], reject_app\<lparr>ean13_oversized := [long_rejected]\<rparr>,
            broken_io)"
proof -
  let ?a = "reject_app\<lparr>ean13_oversized := [long_rejected]\<rparr>"
  have h: "ean13_oversized ?a \<noteq> []" "io_budget broken_io = Some 0"
    by (simp_all add: broken_io_def)
  note t = log_failure_absorbed [of ?a preview_context "u ''2024-01-01 00:00:00''" broken_io
      "Some preview_frame" broken_io]
  from t h have w: "write_ean13_log ?a preview_context (u ''2024-01-01 00:00:00'') broken_io
      = (None, broken_io)"
    and b: "write_ean13_log_body ?a preview_context (u ''2024-01-01 00:00:00'') broken_io
      = (Some OSError, broken_io)"
    by simp_all
  have c: "BASE_COL reject_app \<in> set (df_columns preview_frame)"
    by (simp add: reject_app_def default_app_def preview_frame_def)
  have k: "take 10 (df_rows preview_frame) = [long_row, short_row]"
    by (simp add: preview_frame_def)
  note l = long_then_short
  have v: "validate_ean13 ?a" by (simp add: reject_app_def default_app_def)
  have "on_preview reject_app (Some preview_frame) (u ''2024-01-01 00:00:00'') broken_io =
       Inr (Some [u ''8|0000000000042|Y''], ?a, broken_io)"
    using c v by (simp add: on_preview_def reject_app_reset k l w del: build_lines.simps)
  with h w b show ?thesis by simp
qed

end
